theory Spec2Isabelle
  imports Complex_Main
begin

section \<open>Data model\<close>

text \<open>
  The development embeds \<^verbatim>\<open>openmm_ramd/analyze/analyze_log.py\<close>. Python floats are
  modelled by exact reals (rounding and NaN are outside the model), Python integers by
  \<^typ>\<open>int\<close>. A frame is the pair \<open>(cv, xi)\<close>, so that \<^verbatim>\<open>trajectory[0][1]\<close> is the
  second component of the first frame of a fragment.
\<close>

type_synonym frame = "real \<times> real"
type_synonym fragment = "frame list"
type_synonym matrix = "real list list"

text \<open>
  Every way in which the function can stop early is a value of \<open>error\<close>:
  the three \<^verbatim>\<open>assert\<close> statements of lines 38-40 (with their messages), the
  \<^verbatim>\<open>raise Exception(f"xi value {traj_xi} not placed in bin.")\<close> of line 74 (carrying
  the xi value), the errors the interpreter and numpy raise by themselves, the exit
  of argparse on a malformed command line, and whatever an external module raises.
\<close>

datatype error =
    AssertionError string
  | Exception_not_placed real
  | IndexError
  | UnboundLocalError
  | TypeError
  | ValueError
  | SystemExit
  | ExternalError string

text \<open>
  Modelled from the spec: the interfaces of the modules \<^verbatim>\<open>parser\<close>,
  \<^verbatim>\<open>milestoning\<close> and \<^verbatim>\<open>sigma_ramd\<close>, which the file imports and which are not
  part of it. They are parameters of the model: a record of functions, each of
  which may fail. The parser returns the raw fragments of one file together with
  \<open>forceOutFreq\<close> (an integer), \<open>forceRAMD\<close> and \<open>timeStep\<close>; the condenser returns one
  \<open>(cv, xi)\<close> frame sequence per fragment; the grid builder returns the milestones,
  \<open>min_location\<close>, \<open>max_location\<close> and \<open>starting_cv_val\<close>; the model builder returns
  the count matrix, the time vector, the rate matrix and the transition matrix; the
  time profile calculator returns a two-dimensional array, whose shape the caller
  does not know in advance. \<open>force_constant\<close> is optional because the variable
  \<open>forceRAMD\<close> of the caller starts as \<open>None\<close>.
\<close>

text \<open>
  A two-dimensional numpy array as the caller receives it: its shape and the value
  at every index within the shape.
\<close>

record ndarray2 =
  nrows :: nat
  ncols :: nat
  cell :: "nat \<Rightarrow> nat \<Rightarrow> real"

record ('raw, 'calc) externals =
  parse_ramd_log_file :: "string \<Rightarrow> error + ('raw list \<times> int \<times> real \<times> real)"
  condense_trajectories :: "'raw list \<Rightarrow> error + fragment list"
  uniform_milestone_locations ::
    "fragment list \<Rightarrow> int \<Rightarrow> error + (real list \<times> real \<times> real \<times> real)"
  make_milestoning_model ::
    "fragment list \<Rightarrow> real list \<Rightarrow> real \<Rightarrow> int
       \<Rightarrow> error + (matrix \<times> real list \<times> matrix \<times> matrix)"
  make_time_profiles :: "matrix \<Rightarrow> real list \<Rightarrow> int \<Rightarrow> error + ndarray2"
  functional_expansion_1d_ramd ::
    "matrix list \<Rightarrow> real option \<Rightarrow> real \<Rightarrow> real \<Rightarrow> real \<Rightarrow> real \<Rightarrow> error + 'calc"
  make_second_order_time_estimate :: "'calc \<Rightarrow> error + real"

text \<open>What the function writes to standard output, line by line.\<close>

datatype printed =
    Using_milestones int
  | Using_angle_bins int
  | Number_of_trajectories nat
  | Print_forceOutFreq "int option"
  | Print_forceRAMD "real option"
  | Print_timeStep "real option"
  | Num_in_bin nat nat
  | Print_time_estimate real

text \<open>
  A run of the function is observed through the sequence of its effects: the
  lines it prints and the calls it makes to the external modules, each call with
  the arguments it is given (for \<open>Call_sigma\<close>: \<open>xi_bin_time_profiles\<close>,
  \<open>force_constant\<close>, \<open>beta\<close>, \<open>min_cv_val\<close>, \<open>max_cv_val\<close>, \<open>starting_cv_val\<close>).
\<close>

datatype ('raw, 'calc) event =
    Print printed
  | Call_parse string
  | Call_condense "'raw list"
  | Call_grid "fragment list" int
  | Call_model "fragment list" "real list" real int
  | Call_profiles matrix "real list" int
  | Call_sigma "matrix list" "real option" real real real real
  | Call_estimate 'calc

type_synonym ('ev, 'a) run = "'ev list \<times> (error + 'a)"

definition ret :: "'a \<Rightarrow> ('ev, 'a) run" where
  "ret x = ([], Inr x)"

definition raise :: "error \<Rightarrow> ('ev, 'a) run" where
  "raise e = ([], Inl e)"

definition lift :: "error + 'a \<Rightarrow> ('ev, 'a) run" where
  "lift r = ([], r)"

definition emit :: "'ev \<Rightarrow> ('ev, unit) run" where
  "emit ev = ([ev], Inr ())"

definition call :: "'ev \<Rightarrow> error + 'a \<Rightarrow> ('ev, 'a) run" where
  "call ev r = ([ev], r)"

definition and_then :: "('ev, 'a) run \<Rightarrow> ('a \<Rightarrow> ('ev, 'b) run) \<Rightarrow> ('ev, 'b) run" where
  "and_then m f =
     (case snd m of
        Inl e \<Rightarrow> (fst m, Inl e)
      | Inr x \<Rightarrow> (fst m @ fst (f x), snd (f x)))"

definition print_if :: "bool \<Rightarrow> printed \<Rightarrow> (('raw, 'calc) event, unit) run" where
  "print_if verbose p = (if verbose then emit (Print p) else ret ())"

text \<open>A \<^verbatim>\<open>for\<close> loop over a list that threads a state and stops at the first error.\<close>

fun for_each :: "('x \<Rightarrow> 's \<Rightarrow> ('ev, 's) run) \<Rightarrow> 'x list \<Rightarrow> 's \<Rightarrow> ('ev, 's) run" where
  "for_each body [] s = ret s"
| "for_each body (x # xs) s = and_then (body x s) (for_each body xs)"

section \<open>numpy\<close>

text \<open>
  \<^verbatim>\<open>np.linspace(start, stop, num)\<close> with \<open>endpoint=True\<close>, following numpy's
  implementation step by step: a negative \<open>num\<close> raises \<open>ValueError\<close>; \<open>div = num - 1\<close>;
  the samples are \<open>arange(0, num) * step + start\<close> with \<open>step = (stop - start) / div\<close>
  (or \<open>arange(0, num) / div * delta\<close> when the step is zero, or
  \<open>arange(0, num) * delta\<close> when \<open>div \<le> 0\<close>), and the last sample is overwritten
  with \<open>stop\<close> when \<open>num > 1\<close>.
\<close>

definition np_linspace :: "real \<Rightarrow> real \<Rightarrow> int \<Rightarrow> error + real list" where
  "np_linspace start stop num =
     (if num < 0 then Inl ValueError
      else
        let n = nat num;
            dv = num - 1;
            delta = stop - start;
            y = map real [0..<n];
            y1 = (if dv > 0 then
                    (let step = delta / of_int dv in
                     if step = 0 then map (\<lambda>v. v / of_int dv * delta) y
                     else map (\<lambda>v. v * step) y)
                  else map (\<lambda>v. v * delta) y);
            y2 = map (\<lambda>v. v + start) y1;
            y3 = (if num > 1 then y2[n - 1 := stop] else y2)
        in Inr y3)"

text \<open>\<^verbatim>\<open>np.zeros((a, b, b))\<close>: a negative dimension raises \<open>ValueError\<close>.\<close>

definition np_zeros3 :: "int \<Rightarrow> int \<Rightarrow> error + matrix list" where
  "np_zeros3 a b =
     (if a < 0 \<or> b < 0 then Inl ValueError
      else Inr (replicate (nat a) (replicate (nat b) (replicate (nat b) 0))))"

text \<open>
  The assignment \<^verbatim>\<open>target[i,:,:] = source[:,:]\<close> of line 88, for a slot of shape
  \<open>(n, n)\<close> and a two-dimensional source: numpy broadcasts the source to the shape
  of the slot, which needs each dimension of the source to be \<open>n\<close> or \<open>1\<close> (a
  dimension of size \<open>1\<close> is repeated), and raises \<open>ValueError\<close> otherwise. The result
  is the new content of the slot.
\<close>

definition np_broadcast_to_slot :: "nat \<Rightarrow> ndarray2 \<Rightarrow> error + matrix" where
  "np_broadcast_to_slot n source =
     (if (nrows source = n \<or> nrows source = 1) \<and> (ncols source = n \<or> ncols source = 1)
      then Inr (map (\<lambda>r. map (\<lambda>c. cell source (if nrows source = 1 then 0 else r)
                                               (if ncols source = 1 then 0 else c))
                             [0..<n])
                  [0..<n])
      else Inl ValueError)"

text \<open>Indexing with a non-negative index; out of range raises \<open>IndexError\<close>.\<close>

definition py_index :: "'a list \<Rightarrow> nat \<Rightarrow> error + 'a" where
  "py_index xs i = (if i < length xs then Inr (xs ! i) else Inl IndexError)"

section \<open>The file loop (lines 26-42)\<close>

text \<open>
  The local variables of the loop. \<open>trajectories\<close> is unbound before the first
  iteration and holds the fragments of the file read last afterwards;
  \<open>trajectory_list\<close> accumulates the fragments of all files.
\<close>

record 'raw load_state =
  trajectory_list :: "'raw list"
  trajectories :: "'raw list option"
  forceOutFreq :: "int option"
  forceRAMD :: "real option"
  timeStep :: "real option"

definition initial_state :: "'raw load_state" where
  "initial_state =
     \<lparr>trajectory_list = [], trajectories = None,
      forceOutFreq = None, forceRAMD = None, timeStep = None\<rparr>"

definition check_metadata ::
  "'raw load_state \<Rightarrow> int \<Rightarrow> real \<Rightarrow> real \<Rightarrow> error + 'raw load_state" where
  "check_metadata st forceOutFreq' forceRAMD' timeStep' =
     (if forceOutFreq st = None then
        Inr (st\<lparr>forceOutFreq := Some forceOutFreq',
                forceRAMD := Some forceRAMD',
                timeStep := Some timeStep'\<rparr>)
      else if forceOutFreq st \<noteq> Some forceOutFreq' then
        Inl (AssertionError ''RAMD logs contain differing forceOutFreq values.'')
      else if forceRAMD st \<noteq> Some forceRAMD' then
        Inl (AssertionError ''RAMD logs contain differing forceRAMD values.'')
      else if timeStep st \<noteq> Some timeStep' then
        Inl (AssertionError ''RAMD logs contain differing timeStep values.'')
      else Inr st)"

definition load_file ::
  "('raw, 'calc) externals \<Rightarrow> string \<Rightarrow> 'raw load_state
     \<Rightarrow> (('raw, 'calc) event, 'raw load_state) run" where
  "load_file ext ramd_log_filename st =
     and_then (call (Call_parse ramd_log_filename)
                 (parse_ramd_log_file ext ramd_log_filename))
       (\<lambda>(trajectories', forceOutFreq', forceRAMD', timeStep').
          and_then (lift (check_metadata st forceOutFreq' forceRAMD' timeStep'))
            (\<lambda>st'. ret (st'\<lparr>trajectories := Some trajectories',
                             trajectory_list := trajectory_list st' @ trajectories'\<rparr>)))"

definition load_logs ::
  "('raw, 'calc) externals \<Rightarrow> string list
     \<Rightarrow> (('raw, 'calc) event, 'raw load_state) run" where
  "load_logs ext ramd_log_file_list =
     for_each (load_file ext) ramd_log_file_list initial_state"

section \<open>The xi binner (lines 59-74)\<close>

text \<open>
  The inner loop of lines 66-71: the intervals are tested in the order of
  \<^verbatim>\<open>range(num_xi_bins)\<close>, \<^verbatim>\<open>and\<close> evaluates its second operand only when the first
  holds, and \<^verbatim>\<open>break\<close> leaves the loop at the first interval that contains the value.
\<close>

fun find_bin :: "real list \<Rightarrow> real \<Rightarrow> nat list \<Rightarrow> error + nat option" where
  "find_bin xi_bins_ranges traj_xi [] = Inr None"
| "find_bin xi_bins_ranges traj_xi (j # js) =
     (case py_index xi_bins_ranges j of
        Inl e \<Rightarrow> Inl e
      | Inr lo \<Rightarrow>
          if traj_xi \<ge> lo then
            (case py_index xi_bins_ranges (j + 1) of
               Inl e \<Rightarrow> Inl e
             | Inr hi \<Rightarrow>
                 if traj_xi \<le> hi then Inr (Some j)
                 else find_bin xi_bins_ranges traj_xi js)
          else find_bin xi_bins_ranges traj_xi js)"

text \<open>\<^verbatim>\<open>range(n)\<close> for a Python integer: empty when \<open>n \<le> 0\<close>.\<close>

definition py_range :: "int \<Rightarrow> nat list" where
  "py_range n = [0..<nat n]"

text \<open>The body of the loop of line 63 for one fragment (lines 64-74).\<close>

definition place_trajectory ::
  "real list \<Rightarrow> int \<Rightarrow> fragment \<Rightarrow> fragment list list \<Rightarrow> error + fragment list list" where
  "place_trajectory xi_bins_ranges num_xi_bins trajectory xi_bins =
     (case trajectory of
        [] \<Rightarrow> Inl IndexError
      | frame0 # _ \<Rightarrow>
          let traj_xi = snd frame0 in
          (case find_bin xi_bins_ranges traj_xi (py_range num_xi_bins) of
             Inl e \<Rightarrow> Inl e
           | Inr None \<Rightarrow> Inl (Exception_not_placed traj_xi)
           | Inr (Some j) \<Rightarrow>
               (case py_index xi_bins j of
                  Inl e \<Rightarrow> Inl e
                | Inr bin \<Rightarrow> Inr (xi_bins[j := bin @ [trajectory]]))))"

fun place_all ::
  "real list \<Rightarrow> int \<Rightarrow> fragment list \<Rightarrow> fragment list list \<Rightarrow> error + fragment list list" where
  "place_all xi_bins_ranges num_xi_bins [] xi_bins = Inr xi_bins"
| "place_all xi_bins_ranges num_xi_bins (trajectory # rest) xi_bins =
     (case place_trajectory xi_bins_ranges num_xi_bins trajectory xi_bins of
        Inl e \<Rightarrow> Inl e
      | Inr xi_bins' \<Rightarrow> place_all xi_bins_ranges num_xi_bins rest xi_bins')"

text \<open>Lines 59-74: \<open>num_xi_bins\<close> empty bins, then every fragment in turn.\<close>

definition xi_binner ::
  "real list \<Rightarrow> int \<Rightarrow> fragment list \<Rightarrow> error + fragment list list" where
  "xi_binner xi_bins_ranges num_xi_bins one_dim_trajs =
     place_all xi_bins_ranges num_xi_bins one_dim_trajs
       (map (\<lambda>j. []) (py_range num_xi_bins))"

section \<open>The models of the bins (lines 76-88)\<close>

text \<open>Line 76: the product of two variables that are \<open>None\<close> until a file is read.\<close>

definition frame_time_of :: "'raw load_state \<Rightarrow> error + real" where
  "frame_time_of st =
     (case (timeStep st, forceOutFreq st) of
        (Some ts, Some fof) \<Rightarrow> Inr (ts * of_int fof)
      | _ \<Rightarrow> Inl TypeError)"

text \<open>
  The body of the loop of line 78 for the bin \<open>i\<close> (lines 79-88). The array
  \<open>xi_bin_time_profiles\<close> of shape \<open>(num_xi_bins, num_milestones, num_milestones)\<close> is
  the list of its \<open>num_xi_bins\<close> slots; line 88 replaces the slot \<open>i\<close>.
\<close>

definition bin_profile ::
  "('raw, 'calc) externals \<Rightarrow> bool \<Rightarrow> fragment list list \<Rightarrow> real list \<Rightarrow> real \<Rightarrow> int
     \<Rightarrow> nat \<Rightarrow> matrix list \<Rightarrow> (('raw, 'calc) event, matrix list) run" where
  "bin_profile ext verbose xi_bins milestones frame_time num_milestones i
       xi_bin_time_profiles =
     and_then (lift (py_index xi_bins i))
       (\<lambda>xi_bin_trajs.
     and_then (print_if verbose (Num_in_bin i (length xi_bin_trajs)))
       (\<lambda>_.
     and_then (call (Call_model xi_bin_trajs milestones frame_time num_milestones)
                 (make_milestoning_model ext xi_bin_trajs milestones frame_time
                    num_milestones))
       (\<lambda>(count_matrix, time_vector, rate_matrix, transition_matrix).
     and_then (call (Call_profiles transition_matrix time_vector num_milestones)
                 (make_time_profiles ext transition_matrix time_vector num_milestones))
       (\<lambda>time_profile_matrix.
     and_then (lift (py_index xi_bin_time_profiles i))
       (\<lambda>_.
     and_then (lift (np_broadcast_to_slot (nat num_milestones) time_profile_matrix))
       (\<lambda>slot. ret (xi_bin_time_profiles[i := slot])))))))"

definition bin_profiles ::
  "('raw, 'calc) externals \<Rightarrow> bool \<Rightarrow> fragment list list \<Rightarrow> real list \<Rightarrow> real \<Rightarrow> int
     \<Rightarrow> int \<Rightarrow> (('raw, 'calc) event, matrix list) run" where
  "bin_profiles ext verbose xi_bins milestones frame_time num_milestones num_xi_bins =
     and_then (lift (np_zeros3 num_xi_bins num_milestones))
       (for_each (bin_profile ext verbose xi_bins milestones frame_time num_milestones)
          (py_range num_xi_bins))"

section \<open>The analysis (lines 20-97)\<close>

text \<open>Lines 51-97, after the files are read.\<close>

definition analyze_loaded ::
  "('raw, 'calc) externals \<Rightarrow> int \<Rightarrow> int \<Rightarrow> bool \<Rightarrow> real list \<Rightarrow> 'raw load_state
     \<Rightarrow> (('raw, 'calc) event, unit) run" where
  "analyze_loaded ext num_milestones num_xi_bins verbose xi_bins_ranges st =
     and_then (case trajectories st of
                 None \<Rightarrow> raise UnboundLocalError
               | Some trajs \<Rightarrow>
                   call (Call_condense trajs) (condense_trajectories ext trajs))
       (\<lambda>one_dim_trajs.
     and_then (call (Call_grid one_dim_trajs num_milestones)
                 (uniform_milestone_locations ext one_dim_trajs num_milestones))
       (\<lambda>(milestones, min_location, max_location, starting_cv_val).
     and_then (lift (xi_binner xi_bins_ranges num_xi_bins one_dim_trajs))
       (\<lambda>xi_bins.
     and_then (lift (frame_time_of st))
       (\<lambda>frame_time.
     and_then (bin_profiles ext verbose xi_bins milestones frame_time num_milestones
                 num_xi_bins)
       (\<lambda>xi_bin_time_profiles.
     let beta = 0 in
     and_then (call (Call_sigma xi_bin_time_profiles (forceRAMD st) beta
                       min_location max_location starting_cv_val)
                 (functional_expansion_1d_ramd ext xi_bin_time_profiles (forceRAMD st)
                    beta min_location max_location starting_cv_val))
       (\<lambda>calc.
     and_then (call (Call_estimate calc) (make_second_order_time_estimate ext calc))
       (\<lambda>time_estimate. emit (Print (Print_time_estimate time_estimate)))))))))"

text \<open>Lines 44-49.\<close>

definition print_loaded ::
  "bool \<Rightarrow> 'raw load_state \<Rightarrow> (('raw, 'calc) event, unit) run" where
  "print_loaded verbose st =
     and_then (print_if verbose (Number_of_trajectories (length (trajectory_list st))))
       (\<lambda>_. and_then (print_if verbose (Print_forceOutFreq (forceOutFreq st)))
       (\<lambda>_. and_then (print_if verbose (Print_forceRAMD (forceRAMD st)))
       (\<lambda>_. print_if verbose (Print_timeStep (timeStep st)))))"

definition analyze_log ::
  "('raw, 'calc) externals \<Rightarrow> string list \<Rightarrow> int \<Rightarrow> int \<Rightarrow> bool
     \<Rightarrow> (('raw, 'calc) event, unit) run" where
  "analyze_log ext ramd_log_file_list num_milestones num_xi_bins verbose =
     and_then (print_if verbose (Using_milestones num_milestones))
       (\<lambda>_. and_then (print_if verbose (Using_angle_bins num_xi_bins))
       (\<lambda>_. and_then (lift (np_linspace (- 1) 1 (num_xi_bins + 1)))
       (\<lambda>xi_bins_ranges. and_then (load_logs ext ramd_log_file_list)
       (\<lambda>st. and_then (print_loaded verbose st)
       (\<lambda>_. analyze_loaded ext num_milestones num_xi_bins verbose xi_bins_ranges st)))))"

text \<open>
  The defaults of the signature (lines 20-21): an argument that the caller leaves
  out is \<open>None\<close> here.
\<close>

definition analyze_log_kw ::
  "('raw, 'calc) externals \<Rightarrow> string list \<Rightarrow> int option \<Rightarrow> int option \<Rightarrow> bool option
     \<Rightarrow> (('raw, 'calc) event, unit) run" where
  "analyze_log_kw ext ramd_log_file_list num_milestones num_xi_bins verbose =
     analyze_log ext ramd_log_file_list
       (case num_milestones of None \<Rightarrow> 10 | Some n \<Rightarrow> n)
       (case num_xi_bins of None \<Rightarrow> 5 | Some n \<Rightarrow> n)
       (case verbose of None \<Rightarrow> True | Some v \<Rightarrow> v)"

section \<open>The command line (lines 99-118)\<close>

text \<open>
  The command line as argparse sees it after splitting it into arguments: the
  positional file names, and the values given with \<^verbatim>\<open>-n\<close> and \<^verbatim>\<open>-a\<close> (already
  converted by \<^verbatim>\<open>type=int\<close>), \<open>None\<close> when the option is absent. Lexing and the
  conversion of the option strings belong to the standard library and are not
  modelled.
\<close>

record command_line =
  given_ramdLogFiles :: "string list"
  given_numMilestones :: "int option"
  given_numAngleBins :: "int option"

record namespace =
  ramdLogFiles :: "string list"
  numMilestones :: int
  numAngleBins :: int

text \<open>
  The parser declared in lines 100-110: \<^verbatim>\<open>nargs="+"\<close> rejects an empty list of
  files, \<^verbatim>\<open>default=10\<close> and \<^verbatim>\<open>default=5\<close> fill in the absent options.
\<close>

definition parse_args :: "command_line \<Rightarrow> error + namespace" where
  "parse_args cl =
     (if given_ramdLogFiles cl = [] then Inl SystemExit
      else Inr \<lparr>ramdLogFiles = given_ramdLogFiles cl,
                numMilestones = (case given_numMilestones cl of None \<Rightarrow> 10 | Some n \<Rightarrow> n),
                numAngleBins = (case given_numAngleBins cl of None \<Rightarrow> 5 | Some n \<Rightarrow> n)\<rparr>)"

definition main ::
  "('raw, 'calc) externals \<Rightarrow> command_line \<Rightarrow> (('raw, 'calc) event, unit) run" where
  "main ext cl =
     and_then (lift (parse_args cl))
       (\<lambda>args. analyze_log_kw ext (ramdLogFiles args) (Some (numMilestones args))
                  (Some (numAngleBins args)) None)"

section \<open>The sigma-RAMD expander\<close>

text \<open>
  Modelled from the spec: \<^verbatim>\<open>sigma_ramd.functional_expansion_1d_ramd\<close> and its method
  \<^verbatim>\<open>make_second_order_time_estimate\<close>, which are not part of the file. The
  specification says of them: the expansion consumes \<open>xi_bin_time_profiles\<close>,
  \<open>forceRAMD\<close>, an inverse temperature \<open>beta\<close> and the CV range and start; it is
  constructed fresh for a run and is stateless but for the one estimate it
  computes; it tolerates every array of profiles; it produces a single scalar
  estimate; and supplying \<open>beta = 0.0\<close> disables the thermodynamic reweighting term
  and yields the purely kinetic estimate. The specification does not give the two
  formulas, so they are parameters: \<open>kinetic\<close>, the purely kinetic estimate, which
  does not see \<open>beta\<close>, and \<open>reweighted\<close>, the thermodynamically corrected estimate.
\<close>

record sigma_calc =
  calc_profiles :: "matrix list"
  calc_force_constant :: "real option"
  calc_beta :: real
  calc_min_cv_val :: real
  calc_max_cv_val :: real
  calc_starting_cv_val :: real

type_synonym kinetic_estimate = "matrix list \<Rightarrow> real option \<Rightarrow> real \<Rightarrow> real \<Rightarrow> real \<Rightarrow> real"

definition spec_functional_expansion_1d_ramd ::
  "matrix list \<Rightarrow> real option \<Rightarrow> real \<Rightarrow> real \<Rightarrow> real \<Rightarrow> real \<Rightarrow> error + sigma_calc" where
  "spec_functional_expansion_1d_ramd xi_bin_time_profiles force_constant beta
       min_cv_val max_cv_val starting_cv_val =
     Inr \<lparr>calc_profiles = xi_bin_time_profiles, calc_force_constant = force_constant,
          calc_beta = beta, calc_min_cv_val = min_cv_val, calc_max_cv_val = max_cv_val,
          calc_starting_cv_val = starting_cv_val\<rparr>"

definition spec_make_second_order_time_estimate ::
  "kinetic_estimate \<Rightarrow> (sigma_calc \<Rightarrow> real) \<Rightarrow> sigma_calc \<Rightarrow> error + real" where
  "spec_make_second_order_time_estimate kinetic reweighted calc =
     Inr (if calc_beta calc = 0
          then kinetic (calc_profiles calc) (calc_force_constant calc)
                 (calc_min_cv_val calc) (calc_max_cv_val calc) (calc_starting_cv_val calc)
          else reweighted calc)"

section \<open>An example environment\<close>

text \<open>
  A small environment on which the theorems below are run. Raw fragments are
  numbers. The log files \<^verbatim>\<open>a.log\<close> and \<^verbatim>\<open>b.log\<close> hold one fragment each and report
  \<open>forceOutFreq = 50\<close>, \<open>forceRAMD = 14.0\<close>, \<open>timeStep = 0.002\<close>; \<^verbatim>\<open>c.log\<close> reports
  \<open>forceRAMD = 15.0\<close> instead; any other file cannot be read. The condenser turns
  the fragment \<open>k\<close> into the single frame \<open>(cv, xi) = (k, 0)\<close>. The grid builder
  returns no milestone and zeros; the model builder and the time profile calculator
  return zero matrices of \<open>num_milestones\<close> rows and columns. The expander is the one
  above, with the number of bins as the kinetic estimate and \<open>-1\<close> as the corrected one.
\<close>

definition example_parse :: "string \<Rightarrow> error + (nat list \<times> int \<times> real \<times> real)" where
  "example_parse f =
     (if f = ''a.log'' then Inr ([1], 50, 14, 2 / 1000)
      else if f = ''b.log'' then Inr ([2], 50, 14, 2 / 1000)
      else if f = ''c.log'' then Inr ([3], 50, 15, 2 / 1000)
      else Inl (ExternalError ''cannot read the file''))"

definition zero_matrix :: "int \<Rightarrow> matrix" where
  "zero_matrix n = replicate (nat n) (replicate (nat n) 0)"

definition example_externals :: "(nat, sigma_calc) externals" where
  "example_externals =
     \<lparr>parse_ramd_log_file = example_parse,
      condense_trajectories = (\<lambda>trajs. Inr (map (\<lambda>k. [(real k, 0)]) trajs)),
      uniform_milestone_locations = (\<lambda>trajs nm. Inr ([], 0, 0, 0)),
      make_milestoning_model =
        (\<lambda>trajs ms ft nm.
           Inr (zero_matrix nm, replicate (nat nm) 0, zero_matrix nm, zero_matrix nm)),
      make_time_profiles =
        (\<lambda>tm tv nm. Inr \<lparr>nrows = nat nm, ncols = nat nm, cell = (\<lambda>r c. 0)\<rparr>),
      functional_expansion_1d_ramd = spec_functional_expansion_1d_ramd,
      make_second_order_time_estimate =
        spec_make_second_order_time_estimate
          (\<lambda>profiles force_constant min_cv_val max_cv_val starting_cv_val.
             real (length profiles))
          (\<lambda>calc. - 1)\<rparr>"

section \<open>Properties of the xi binner\<close>

lemma find_bin_find:
  "\<forall>j\<in>set js. j + 1 < length r \<Longrightarrow>
   find_bin r x js = Inr (List.find (\<lambda>j. r ! j \<le> x \<and> x \<le> r ! (j + 1)) js)"
  by (induction js) (auto simp: py_index_def)

lemma linspace_grid:
  assumes "1 \<le> nb"
  shows "np_linspace (- 1) 1 (nb + 1) =
           Inr (map (\<lambda>j. - 1 + real j * (2 / of_int nb)) [0..<nat nb + 1])"
proof -
  let ?n = "nat nb"
  let ?g = "map (\<lambda>j. real j * (2 / of_int nb) + - 1) [0..<?n + 1]"
  have n: "nat (nb + 1) = ?n + 1" using assms by simp
  have step: "(2::real) / of_int nb \<noteq> 0" using assms by simp
  have last: "?g ! ?n = 1" using assms by (simp add: nth_append)
  have "?g[?n := 1] = ?g" using last by (metis list_update_id)
  then show ?thesis
    using assms step unfolding np_linspace_def Let_def n
    by (simp add: comp_def algebra_simps del: upt_Suc)
qed

lemma linspace_zero: "np_linspace (- 1) 1 (0 + 1) = Inr [- 1]"
  by (simp add: np_linspace_def)

lemma linspace_m1: "np_linspace (- 1) 1 (-1 + 1) = Inr []"
  by (simp add: np_linspace_def)

lemma linspace_neg: "nb < -1 \<Longrightarrow> np_linspace (- 1) 1 (nb + 1) = Inl ValueError"
  by (simp add: np_linspace_def)

lemma discrete_ivt:
  fixes f :: "nat \<Rightarrow> real"
  shows "0 < n \<Longrightarrow> f 0 \<le> x \<Longrightarrow> x \<le> f n \<Longrightarrow> \<exists>j<n. f j \<le> x \<and> x \<le> f (j + 1)"
proof (induction n)
  case 0
  then show ?case by simp
next
  case (Suc n)
  show ?case
  proof (cases "x \<le> f n")
    case True
    show ?thesis
    proof (cases "n = 0")
      case True
      with Suc.prems show ?thesis by auto
    next
      case False
      with True Suc obtain j where "j < n" "f j \<le> x \<and> x \<le> f (j + 1)" by auto
      then show ?thesis using less_Suc_eq by auto
    qed
  next
    case False
    with Suc.prems show ?thesis by (intro exI[of _ n]) auto
  qed
qed

lemma place_trajectory_eq:
  assumes "t \<noteq> []" "n = 0 \<or> length r = n + 1" "nat nb = n" "length bins = n"
  shows "place_trajectory r nb t bins =
     (case List.find (\<lambda>j. r ! j \<le> snd (hd t) \<and> snd (hd t) \<le> r ! (j + 1)) [0..<n] of
        None \<Rightarrow> Inl (Exception_not_placed (snd (hd t)))
      | Some j \<Rightarrow> Inr (bins[j := bins ! j @ [t]]))"
proof -
  have fb: "find_bin r (snd (hd t)) (py_range nb) =
      Inr (List.find (\<lambda>j. r ! j \<le> snd (hd t) \<and> snd (hd t) \<le> r ! (j + 1)) [0..<n])"
    unfolding py_range_def using assms by (auto simp: find_bin_find)
  obtain fr rest where t: "t = fr # rest" using assms(1) by (cases t) auto
  show ?thesis
  proof (cases "List.find (\<lambda>j. r ! j \<le> snd (hd t) \<and> snd (hd t) \<le> r ! (j + 1)) [0..<n]")
    case None
    then show ?thesis using fb t by (simp add: place_trajectory_def)
  next
    case (Some j)
    then have "j < n" by (auto simp: find_Some_iff)
    then show ?thesis using fb t Some assms(4)
      by (simp add: place_trajectory_def py_index_def)
  qed
qed

lemma place_all_ok:
  assumes "n = 0 \<or> length r = n + 1" "nat nb = n" "length bins = n"
    and "\<forall>t\<in>set ts. t \<noteq> [] \<and>
           List.find (\<lambda>j. r ! j \<le> snd (hd t) \<and> snd (hd t) \<le> r ! (j + 1)) [0..<n] \<noteq> None"
  shows "\<exists>bins'. place_all r nb ts bins = Inr bins' \<and> length bins' = n \<and>
           (\<forall>j<n. bins' ! j = bins ! j @
              filter (\<lambda>t. List.find (\<lambda>j. r ! j \<le> snd (hd t) \<and> snd (hd t) \<le> r ! (j + 1)) [0..<n]
                           = Some j) ts)"
  using assms(3,4)
proof (induction ts arbitrary: bins)
  case Nil
  then show ?case by simp
next
  case (Cons t ts)
  let ?F = "\<lambda>t. List.find (\<lambda>j. r ! j \<le> snd (hd t) \<and> snd (hd t) \<le> r ! (j + 1)) [0..<n]"
  from Cons.prems obtain k where k: "?F t = Some k" and tne: "t \<noteq> []" by auto
  then have kn: "k < n" by (auto simp: find_Some_iff)
  let ?b = "bins[k := bins ! k @ [t]]"
  have pt: "place_trajectory r nb t bins = Inr ?b"
    using place_trajectory_eq[OF tne assms(1,2) Cons.prems(1)] k by simp
  have "length ?b = n" using Cons.prems by simp
  moreover have "\<forall>t\<in>set ts. t \<noteq> [] \<and> ?F t \<noteq> None" using Cons.prems by simp
  ultimately obtain bins' where b': "place_all r nb ts ?b = Inr bins'" "length bins' = n"
    "\<forall>j<n. bins' ! j = ?b ! j @ filter (\<lambda>t. ?F t = Some j) ts"
    using Cons.IH[of ?b] by blast
  have "\<forall>j<n. bins' ! j = bins ! j @ filter (\<lambda>t. ?F t = Some j) (t # ts)"
  proof (intro allI impI)
    fix j assume "j < n"
    then show "bins' ! j = bins ! j @ filter (\<lambda>t. ?F t = Some j) (t # ts)"
      using b'(3) k kn Cons.prems(1) by (cases "j = k") auto
  qed
  then show ?case using pt b' by simp
qed

lemma place_all_fail:
  assumes "n = 0 \<or> length r = n + 1" "nat nb = n" "length bins = n"
    and "\<forall>t\<in>set pre. t \<noteq> [] \<and>
           List.find (\<lambda>j. r ! j \<le> snd (hd t) \<and> snd (hd t) \<le> r ! (j + 1)) [0..<n] \<noteq> None"
    and "t \<noteq> []"
    and "List.find (\<lambda>j. r ! j \<le> snd (hd t) \<and> snd (hd t) \<le> r ! (j + 1)) [0..<n] = None"
  shows "place_all r nb (pre @ t # post) bins = Inl (Exception_not_placed (snd (hd t)))"
  using assms(3,4)
proof (induction pre arbitrary: bins)
  case Nil
  then show ?case using place_trajectory_eq[OF assms(5) assms(1,2), of bins] assms(6) by simp
next
  case (Cons p pre)
  let ?F = "\<lambda>t. List.find (\<lambda>j. r ! j \<le> snd (hd t) \<and> snd (hd t) \<le> r ! (j + 1)) [0..<n]"
  from Cons.prems obtain k where k: "?F p = Some k" and pne: "p \<noteq> []" by auto
  let ?b = "bins[k := bins ! k @ [p]]"
  have pt: "place_trajectory r nb p bins = Inr ?b"
    using place_trajectory_eq[OF pne assms(1,2) Cons.prems(1)] k by simp
  have "place_all r nb (pre @ t # post) ?b = Inl (Exception_not_placed (snd (hd t)))"
    using Cons.IH[of ?b] Cons.prems by simp
  then show ?case using pt by simp
qed

lemma place_trajectory_count:
  "place_trajectory r nb t bins = Inr bins' \<Longrightarrow>
   length bins' = length bins \<and>
   sum_list (map length bins') = sum_list (map length bins) + 1"
proof -
  assume a: "place_trajectory r nb t bins = Inr bins'"
  then obtain j where j: "j < length bins" and b: "bins' = bins[j := bins ! j @ [t]]"
    by (auto simp: place_trajectory_def py_index_def Let_def
             split: list.splits sum.splits option.splits if_splits)
  have "length (bins ! j) \<le> sum_list (map length bins)"
    using j by (simp add: member_le_sum_list)
  then show ?thesis
    using j b by (simp add: map_update sum_list_update)
qed

lemma place_all_count:
  "place_all r nb ts bins = Inr bins' \<Longrightarrow>
   length bins' = length bins \<and>
   sum_list (map length bins') = sum_list (map length bins) + length ts"
proof (induction ts arbitrary: bins)
  case Nil
  then show ?case by simp
next
  case (Cons t ts)
  then obtain b where b: "place_trajectory r nb t bins = Inr b"
    and rest: "place_all r nb ts b = Inr bins'"
    by (auto split: sum.splits)
  show ?case
    using place_trajectory_count[OF b] Cons.IH[OF rest] by simp
qed

lemma grid_nth:
  assumes "1 \<le> nb" "np_linspace (- 1) 1 (nb + 1) = Inr r"
  shows "length r = nat nb + 1"
    and "j \<le> nat nb \<Longrightarrow> r ! j = - 1 + real j * (2 / of_int nb)"
proof -
  have r: "r = map (\<lambda>j. - 1 + real j * (2 / of_int nb)) [0..<nat nb + 1]"
    using linspace_grid[OF assms(1)] assms(2) by simp
  show "length r = nat nb + 1" using r by simp
  show "r ! j = - 1 + real j * (2 / of_int nb)" if "j \<le> nat nb"
  proof -
    have "j < length [0..<nat nb + 1]" using that by simp
    then have "r ! j = - 1 + real ([0..<nat nb + 1] ! j) * (2 / of_int nb)"
      unfolding r by (rule nth_map)
    also have "[0..<nat nb + 1] ! j = j" using that by (metis add_0 less_Suc_eq_le nth_upt Suc_eq_plus1)
    finally show ?thesis .
  qed
qed

lemma grid_bounds:
  assumes "1 \<le> nb" "np_linspace (- 1) 1 (nb + 1) = Inr r" "j \<le> nat nb"
  shows "- 1 \<le> r ! j" "r ! j \<le> 1"
proof -
  have rj: "r ! j = - 1 + real j * (2 / of_int nb)" using grid_nth(2)[OF assms] .
  have nbpos: "(0::real) < of_int nb" using assms(1) by simp
  have "real j \<le> of_int nb" using assms(1,3) by (simp add: le_nat_iff)
  then have "real j * (2 / of_int nb) \<le> 2" using nbpos by (simp add: field_simps)
  then show "r ! j \<le> 1" using rj by simp
  have "0 \<le> real j * (2 / of_int nb)" using nbpos by simp
  then show "- 1 \<le> r ! j" using rj by simp
qed

lemma grid_ends:
  assumes "1 \<le> nb" "np_linspace (- 1) 1 (nb + 1) = Inr r"
  shows "r ! 0 = - 1" "r ! nat nb = 1"
  using grid_nth(2)[OF assms, of 0] grid_nth(2)[OF assms, of "nat nb"] assms(1)
  by simp_all

lemma grid_cover:
  assumes "1 \<le> nb" "np_linspace (- 1) 1 (nb + 1) = Inr r" "- 1 \<le> x" "x \<le> 1"
  shows "\<exists>j<nat nb. r ! j \<le> x \<and> x \<le> r ! (j + 1)"
  using discrete_ivt[of "nat nb" "\<lambda>j. r ! j" x] grid_ends[OF assms(1,2)] assms by simp

lemma grid_union:
  assumes "1 \<le> nb" "np_linspace (- 1) 1 (nb + 1) = Inr r"
  shows "(\<Union>j<nat nb. {r ! j .. r ! (j + 1)}) = {- 1 .. 1}"
proof (intro set_eqI iffI)
  fix x assume "x \<in> (\<Union>j<nat nb. {r ! j .. r ! (j + 1)})"
  then obtain j where j: "j < nat nb" "r ! j \<le> x" "x \<le> r ! (j + 1)" by auto
  have "- 1 \<le> r ! j" using grid_bounds(1)[OF assms, of j] j by simp
  moreover have "r ! (j + 1) \<le> 1" using grid_bounds(2)[OF assms, of "j + 1"] j by simp
  ultimately show "x \<in> {- 1 .. 1}" using j by simp
next
  fix x :: real assume "x \<in> {- 1 .. 1}"
  then obtain j where "j < nat nb" "r ! j \<le> x \<and> x \<le> r ! (j + 1)"
    using grid_cover[OF assms, of x] by auto
  then show "x \<in> (\<Union>j<nat nb. {r ! j .. r ! (j + 1)})" by auto
qed

lemma find_bin_range:
  assumes "nat nb = n" "n = 0 \<or> length r = n + 1"
  shows "find_bin r x (py_range nb) =
           Inr (List.find (\<lambda>j. r ! j \<le> x \<and> x \<le> r ! (j + 1)) [0..<n])"
  unfolding py_range_def using assms by (auto simp: find_bin_find)

lemma find_upt_Some:
  "List.find P [0..<n] = Some j \<longleftrightarrow> j < n \<and> P j \<and> (\<forall>i<j. \<not> P i)"
  by (auto simp: find_Some_iff)

lemma find_upt_None: "List.find P [0..<n] = None \<longleftrightarrow> (\<forall>j<n. \<not> P j)"
  by (auto simp: find_None_iff)

lemma grid_strict_mono:
  assumes "1 \<le> nb" "np_linspace (- 1) 1 (nb + 1) = Inr r" "i < j" "j \<le> nat nb"
  shows "r ! i < r ! j"
proof -
  have "r ! i = - 1 + real i * (2 / of_int nb)" "r ! j = - 1 + real j * (2 / of_int nb)"
    using grid_nth(2)[OF assms(1,2)] assms(3,4) by simp_all
  moreover have "real i * (2 / of_int nb) < real j * (2 / of_int nb)"
  proof (rule mult_strict_right_mono)
    show "real i < real j" using assms(3) by simp
    show "(0::real) < 2 / of_int nb" using assms(1) by simp
  qed
  ultimately show ?thesis by linarith
qed

lemma linspace_length:
  assumes "np_linspace (- 1) 1 (nb + 1) = Inr r"
  shows "nat nb = 0 \<or> length r = nat nb + 1"
proof (cases "1 \<le> nb")
  case True
  then show ?thesis using grid_nth(1)[OF True assms] by simp
next
  case False
  then show ?thesis by simp
qed

section \<open>Properties of runs\<close>

lemma run_simps [simp]:
  "fst (ret x) = []" "snd (ret x) = Inr x"
  "fst (raise e) = []" "snd (raise e) = Inl e"
  "fst (lift r) = []" "snd (lift r) = r"
  "fst (emit ev) = [ev]" "snd (emit ev) = Inr ()"
  "fst (call ev r) = [ev]" "snd (call ev r) = r"
  by (simp_all add: ret_def raise_def lift_def emit_def call_def)

lemma snd_and_then:
  "snd (and_then m f) = (case snd m of Inl e \<Rightarrow> Inl e | Inr x \<Rightarrow> snd (f x))"
  by (simp add: and_then_def split: sum.splits)

lemma fst_and_then:
  "fst (and_then m f) = (case snd m of Inl e \<Rightarrow> fst m | Inr x \<Rightarrow> fst m @ fst (f x))"
  by (simp add: and_then_def split: sum.splits)

lemma print_if_simps [simp]:
  "snd (print_if v p) = Inr ()"
  "fst (print_if v p) = (if v then [Print p] else [])"
  by (simp_all add: print_if_def)

section \<open>Properties of the file loop\<close>

lemma fst_load_file [simp]: "fst (load_file ext f st) = [Call_parse f]"
  by (simp add: load_file_def fst_and_then split: sum.splits prod.splits)

lemma snd_load_file:
  "snd (load_file ext f st) =
     (case parse_ramd_log_file ext f of
        Inl e \<Rightarrow> Inl e
      | Inr (trajs, fof, frc, ts) \<Rightarrow>
          (case check_metadata st fof frc ts of
             Inl e \<Rightarrow> Inl e
           | Inr st' \<Rightarrow> Inr (st'\<lparr>trajectories := Some trajs,
                                 trajectory_list := trajectory_list st' @ trajs\<rparr>)))"
  by (simp add: load_file_def snd_and_then split: sum.splits prod.splits)

lemma load_events: "set (fst (for_each (load_file ext) fs st)) \<subseteq> Call_parse ` set fs"
proof (induction fs arbitrary: st)
  case Nil
  then show ?case by simp
next
  case (Cons f fs)
  then show ?case by (auto simp: fst_and_then split: sum.splits)
qed

lemma load_rest_ok:
  assumes "forceOutFreq st = Some a" "forceRAMD st = Some b" "timeStep st = Some c"
    and "map (parse_ramd_log_file ext) fs = map Inr rs"
    and "\<forall>r\<in>set rs. snd r = (a, b, c)"
  shows "snd (for_each (load_file ext) fs st) =
           Inr (st\<lparr>trajectories := (if rs = [] then trajectories st else Some (fst (last rs))),
                   trajectory_list := trajectory_list st @ concat (map fst rs)\<rparr>)"
  using assms
proof (induction fs arbitrary: st rs)
  case Nil
  then show ?case by simp
next
  case (Cons f fs)
  then obtain r rs' where rs: "rs = r # rs'" by (cases rs) auto
  obtain trajs where r: "r = (trajs, a, b, c)" using Cons.prems(5) rs by (cases r) auto
  have p: "parse_ramd_log_file ext f = Inr (trajs, a, b, c)" using Cons.prems(4) rs r by simp
  let ?st = "st\<lparr>trajectories := Some trajs, trajectory_list := trajectory_list st @ trajs\<rparr>"
  have chk: "check_metadata st a b c = Inr st"
    using Cons.prems(1,2,3) by (simp add: check_metadata_def)
  have step: "snd (load_file ext f st) = Inr ?st" by (simp add: snd_load_file p chk)
  have "snd (for_each (load_file ext) fs ?st) =
      Inr (?st\<lparr>trajectories := (if rs' = [] then trajectories ?st else Some (fst (last rs'))),
               trajectory_list := trajectory_list ?st @ concat (map fst rs')\<rparr>)"
    using Cons.IH[of ?st rs'] Cons.prems rs by simp
  then show ?case using step rs r by (simp add: snd_and_then)
qed

lemma load_rest_fail:
  assumes "forceOutFreq st = Some a" "forceRAMD st = Some b" "timeStep st = Some c"
    and "map (parse_ramd_log_file ext) fs = map Inr rs"
    and "\<exists>r\<in>set rs. snd r \<noteq> (a, b, c)"
  shows "\<exists>msg. snd (for_each (load_file ext) fs st) = Inl (AssertionError msg)"
  using assms
proof (induction fs arbitrary: st rs)
  case Nil
  then show ?case by simp
next
  case (Cons f fs)
  then obtain r rs' where rs: "rs = r # rs'" by (cases rs) auto
  obtain trajs a' b' c' where r: "r = (trajs, a', b', c')" by (cases r) auto
  have p: "parse_ramd_log_file ext f = Inr (trajs, a', b', c')" using Cons.prems(4) rs r by simp
  show ?case
  proof (cases "(a', b', c') = (a, b, c)")
    case True
    let ?st = "st\<lparr>trajectories := Some trajs, trajectory_list := trajectory_list st @ trajs\<rparr>"
    have chk: "check_metadata st a' b' c' = Inr st"
      using Cons.prems(1,2,3) True by (simp add: check_metadata_def)
    have step: "snd (load_file ext f st) = Inr ?st" by (simp add: snd_load_file p chk)
    have "\<exists>r\<in>set rs'. snd r \<noteq> (a, b, c)" using Cons.prems(5) rs r True by simp
    then have "\<exists>msg. snd (for_each (load_file ext) fs ?st) = Inl (AssertionError msg)"
      using Cons.IH[of ?st rs'] Cons.prems rs by simp
    then show ?thesis using step by (simp add: snd_and_then)
  next
    case False
    then have "\<exists>msg. check_metadata st a' b' c' = Inl (AssertionError msg)"
      using Cons.prems(1,2,3) by (auto simp: check_metadata_def)
    then show ?thesis by (auto simp: snd_load_file p snd_and_then)
  qed
qed

lemma load_first:
  assumes "parse_ramd_log_file ext f = Inr (trajs, a, b, c)"
  shows "snd (load_file ext f initial_state) =
     Inr \<lparr>trajectory_list = trajs, trajectories = Some trajs,
          forceOutFreq = Some a, forceRAMD = Some b, timeStep = Some c\<rparr>"
  by (simp add: snd_load_file assms check_metadata_def initial_state_def)

lemma snd_load_logs_Cons:
  "snd (load_logs ext (f # fs)) =
     (case snd (load_file ext f initial_state) of
        Inl e \<Rightarrow> Inl e
      | Inr st \<Rightarrow> snd (for_each (load_file ext) fs st))"
  by (simp add: load_logs_def snd_and_then)

lemma load_logs_events: "set (fst (load_logs ext fs)) \<subseteq> Call_parse ` set fs"
  unfolding load_logs_def by (rule load_events)

section \<open>Properties of the analysis\<close>

lemma snd_analyze_log:
  "snd (analyze_log ext files nm nb v) =
     (case np_linspace (- 1) 1 (nb + 1) of
        Inl e \<Rightarrow> Inl e
      | Inr r \<Rightarrow>
          (case snd (load_logs ext files) of
             Inl e \<Rightarrow> Inl e
           | Inr st \<Rightarrow> snd (analyze_loaded ext nm nb v r st)))"
  by (simp add: analyze_log_def snd_and_then print_loaded_def split: sum.splits)

lemma fst_analyze_log:
  "fst (analyze_log ext files nm nb v) =
     (if v then [Print (Using_milestones nm), Print (Using_angle_bins nb)] else []) @
     (case np_linspace (- 1) 1 (nb + 1) of
        Inl e \<Rightarrow> []
      | Inr r \<Rightarrow>
          fst (load_logs ext files) @
          (case snd (load_logs ext files) of
             Inl e \<Rightarrow> []
           | Inr st \<Rightarrow>
               fst (print_loaded v st :: (('a, 'b) event, unit) run) @
               fst (analyze_loaded ext nm nb v r st)))"
  by (simp add: analyze_log_def snd_and_then fst_and_then print_loaded_def split: sum.splits)

lemma print_loaded_events:
  "set (fst (print_loaded v st)) \<subseteq> range Print"
  by (auto simp: print_loaded_def fst_and_then)

lemma linspace_ok: "- 1 \<le> nb \<Longrightarrow> \<exists>r. np_linspace (- 1) 1 (nb + 1) = Inr r"
  by (simp add: np_linspace_def Let_def)

section \<open>Events of the later stages\<close>

lemma for_each_events_subset:
  "(\<And>x s. set (fst (body x s)) \<subseteq> A) \<Longrightarrow> set (fst (for_each body xs s)) \<subseteq> A"
proof (induction xs arbitrary: s)
  case Nil
  then show ?case by simp
next
  case (Cons x xs)
  have "set (fst (body x s)) \<subseteq> A" using Cons.prems .
  moreover have "\<And>s'. set (fst (for_each body xs s')) \<subseteq> A" using Cons by simp
  ultimately show ?case by (auto simp: fst_and_then split: sum.splits)
qed

lemma for_each_success_events:
  "snd (for_each body xs s) = Inr s' \<Longrightarrow> x \<in> set xs \<Longrightarrow>
   \<exists>s0 s1. snd (body x s0) = Inr s1 \<and>
     set (fst (body x s0)) \<subseteq> set (fst (for_each body xs s))"
proof (induction xs arbitrary: s)
  case Nil
  then show ?case by simp
next
  case (Cons y ys)
  from Cons.prems(1) obtain s1 where s1: "snd (body y s) = Inr s1"
    and rest: "snd (for_each body ys s1) = Inr s'"
    by (auto simp: snd_and_then split: sum.splits)
  have ev: "fst (for_each body (y # ys) s) = fst (body y s) @ fst (for_each body ys s1)"
    using s1 by (simp add: fst_and_then)
  show ?case
  proof (cases "x = y")
    case True
    then show ?thesis using s1 ev by (intro exI[of _ s] exI[of _ s1]) auto
  next
    case False
    then have "x \<in> set ys" using Cons.prems(2) by simp
    from Cons.IH[OF rest this] obtain s0 s2 where "snd (body x s0) = Inr s2"
      "set (fst (body x s0)) \<subseteq> set (fst (for_each body ys s1))" by blast
    then show ?thesis using ev by (intro exI[of _ s0] exI[of _ s2]) auto
  qed
qed

lemma bin_profile_events:
  "set (fst (bin_profile ext v xi_bins ms ft nm i P)) \<subseteq>
     range Print \<union> {ev. \<exists>b. ev = Call_model b ms ft nm} \<union>
     {ev. \<exists>tm tv. ev = Call_profiles tm tv nm}"
  by (auto simp: bin_profile_def fst_and_then snd_and_then split: sum.splits prod.splits if_splits)

lemma bin_profile_success:
  "snd (bin_profile ext v xi_bins ms ft nm i P) = Inr P' \<Longrightarrow>
   i < length xi_bins \<and>
   Call_model (xi_bins ! i) ms ft nm \<in> set (fst (bin_profile ext v xi_bins ms ft nm i P))"
  by (auto simp: bin_profile_def fst_and_then snd_and_then py_index_def
           split: sum.splits prod.splits if_splits)

lemma bin_profiles_events:
  "set (fst (bin_profiles ext v xi_bins ms ft nm nb)) \<subseteq>
     range Print \<union> {ev. \<exists>b. ev = Call_model b ms ft nm} \<union>
     {ev. \<exists>tm tv. ev = Call_profiles tm tv nm}"
  unfolding bin_profiles_def
  using for_each_events_subset[of "bin_profile ext v xi_bins ms ft nm", OF bin_profile_events]
  by (auto simp: fst_and_then split: sum.splits)

lemma bin_profiles_success:
  assumes "snd (bin_profiles ext v xi_bins ms ft nm nb) = Inr P" "i < nat nb"
  shows "Call_model (xi_bins ! i) ms ft nm \<in> set (fst (bin_profiles ext v xi_bins ms ft nm nb))"
proof -
  obtain Z where z: "np_zeros3 nb nm = Inr Z"
    and loop: "snd (for_each (bin_profile ext v xi_bins ms ft nm) (py_range nb) Z) = Inr P"
    using assms(1) by (auto simp: bin_profiles_def snd_and_then split: sum.splits)
  have "i \<in> set (py_range nb)" using assms(2) by (simp add: py_range_def)
  from for_each_success_events[OF loop this] obtain s0 s1 where
    "snd (bin_profile ext v xi_bins ms ft nm i s0) = Inr s1"
    "set (fst (bin_profile ext v xi_bins ms ft nm i s0))
       \<subseteq> set (fst (for_each (bin_profile ext v xi_bins ms ft nm) (py_range nb) Z))"
    by blast
  then have "Call_model (xi_bins ! i) ms ft nm \<in>
      set (fst (for_each (bin_profile ext v xi_bins ms ft nm) (py_range nb) Z))"
    using bin_profile_success by blast
  then show ?thesis by (simp add: bin_profiles_def fst_and_then z)
qed

lemma snd_and_then_Inr_iff:
  "snd (and_then m f) = Inr y \<longleftrightarrow> (\<exists>x. snd m = Inr x \<and> snd (f x) = Inr y)"
  by (simp add: snd_and_then split: sum.splits)

lemma fst_and_then_Inr: "snd m = Inr x \<Longrightarrow> fst (and_then m f) = fst m @ fst (f x)"
  by (simp add: fst_and_then)

lemma and_then_events:
  "set (fst m) \<subseteq> A \<Longrightarrow> (\<And>x. snd m = Inr x \<Longrightarrow> set (fst (f x)) \<subseteq> A) \<Longrightarrow>
   set (fst (and_then m f)) \<subseteq> A"
  by (auto simp: fst_and_then split: sum.splits)

lemma analyze_loaded_success:
  assumes "snd (analyze_loaded ext nm nb v r st) = Inr u"
  shows "\<exists>trajs one_dim ms mn mx s xi_bins ft P calc est.
     trajectories st = Some trajs \<and>
     condense_trajectories ext trajs = Inr one_dim \<and>
     uniform_milestone_locations ext one_dim nm = Inr (ms, mn, mx, s) \<and>
     xi_binner r nb one_dim = Inr xi_bins \<and>
     frame_time_of st = Inr ft \<and>
     snd (bin_profiles ext v xi_bins ms ft nm nb) = Inr P \<and>
     functional_expansion_1d_ramd ext P (forceRAMD st) 0 mn mx s = Inr calc \<and>
     make_second_order_time_estimate ext calc = Inr est \<and>
     fst (analyze_loaded ext nm nb v r st) =
       [Call_condense trajs, Call_grid one_dim nm] @
       fst (bin_profiles ext v xi_bins ms ft nm nb) @
       [Call_sigma P (forceRAMD st) 0 mn mx s, Call_estimate calc,
        Print (Print_time_estimate est)]"
proof -
  from assms obtain trajs where t: "trajectories st = Some trajs"
    by (cases "trajectories st") (simp_all add: analyze_loaded_def snd_and_then)
  from assms t obtain one_dim where c: "condense_trajectories ext trajs = Inr one_dim"
    by (cases "condense_trajectories ext trajs") (simp_all add: analyze_loaded_def snd_and_then)
  from assms t c obtain ms mn mx s where
    g: "uniform_milestone_locations ext one_dim nm = Inr (ms, mn, mx, s)"
    by (cases "uniform_milestone_locations ext one_dim nm")
       (auto simp add: analyze_loaded_def snd_and_then)
  from assms t c g obtain xi_bins where b: "xi_binner r nb one_dim = Inr xi_bins"
    by (cases "xi_binner r nb one_dim") (simp_all add: analyze_loaded_def snd_and_then)
  from assms t c g b obtain ft where f: "frame_time_of st = Inr ft"
    by (cases "frame_time_of st") (simp_all add: analyze_loaded_def snd_and_then)
  from assms t c g b f obtain P where
    p: "snd (bin_profiles ext v xi_bins ms ft nm nb) = Inr P"
    by (cases "snd (bin_profiles ext v xi_bins ms ft nm nb)")
       (simp_all add: analyze_loaded_def snd_and_then)
  from assms t c g b f p obtain calc where
    s: "functional_expansion_1d_ramd ext P (forceRAMD st) 0 mn mx s = Inr calc"
    by (cases "functional_expansion_1d_ramd ext P (forceRAMD st) 0 mn mx s")
       (simp_all add: analyze_loaded_def snd_and_then)
  from assms t c g b f p s obtain est where
    e: "make_second_order_time_estimate ext calc = Inr est"
    by (cases "make_second_order_time_estimate ext calc")
       (simp_all add: analyze_loaded_def snd_and_then)
  have "fst (analyze_loaded ext nm nb v r st) =
       [Call_condense trajs, Call_grid one_dim nm] @
       fst (bin_profiles ext v xi_bins ms ft nm nb) @
       [Call_sigma P (forceRAMD st) 0 mn mx s, Call_estimate calc,
        Print (Print_time_estimate est)]"
    by (simp add: analyze_loaded_def fst_and_then snd_and_then t c g b f p s e)
  then show ?thesis using t c g b f p s e by blast
qed

lemma case_prod4_events:
  "(\<And>a b c d. set (fst (f a b c d)) \<subseteq> A) \<Longrightarrow>
   set (fst (case g of (a, b, c, d) \<Rightarrow> f a b c d)) \<subseteq> A"
  by (cases g) auto

lemma analyze_loaded_events:
  "set (fst (analyze_loaded ext nm nb v r st)) \<subseteq>
     range Print \<union> range Call_condense \<union> {ev. \<exists>t. ev = Call_grid t nm} \<union>
     {ev. \<exists>b ms ft. ev = Call_model b ms ft nm \<and> frame_time_of st = Inr ft} \<union>
     {ev. \<exists>tm tv. ev = Call_profiles tm tv nm} \<union>
     {ev. \<exists>P mn mx s. ev = Call_sigma P (forceRAMD st) 0 mn mx s} \<union>
     range Call_estimate"
  (is "_ \<subseteq> ?A")
proof -
  have bp: "set (fst (bin_profiles ext v xi_bins ms ft nm nb)) \<subseteq> ?A"
    if "snd (lift (frame_time_of st) :: (('a, 'b) event, real) run) = Inr ft" for xi_bins ms ft
    by (rule subset_trans[OF bin_profiles_events]) (use that in auto)
  show ?thesis
    unfolding analyze_loaded_def Let_def
    by (intro and_then_events case_prod4_events bp) (simp_all split: option.splits)
qed

lemma load_rest_metadata:
  assumes "forceOutFreq st = Some a" "forceRAMD st = Some b" "timeStep st = Some c"
    and "snd (for_each (load_file ext) fs st) = Inr st'"
  shows "forceOutFreq st' = Some a \<and> forceRAMD st' = Some b \<and> timeStep st' = Some c \<and>
         (\<forall>g\<in>set fs. \<exists>tr. parse_ramd_log_file ext g = Inr (tr, a, b, c))"
  using assms
proof (induction fs arbitrary: st)
  case Nil
  then show ?case by simp
next
  case (Cons f fs)
  from Cons.prems(4) obtain s1 where s1: "snd (load_file ext f st) = Inr s1"
    and rest: "snd (for_each (load_file ext) fs s1) = Inr st'"
    by (auto simp: snd_and_then split: sum.splits)
  from s1 obtain tr a' b' c' s0 where p: "parse_ramd_log_file ext f = Inr (tr, a', b', c')"
    and chk: "check_metadata st a' b' c' = Inr s0"
    and s1': "s1 = s0\<lparr>trajectories := Some tr, trajectory_list := trajectory_list s0 @ tr\<rparr>"
    by (auto simp: snd_load_file split: sum.splits prod.splits)
  from chk Cons.prems(1,2,3) have same: "a' = a" "b' = b" "c' = c" and s0: "s0 = st"
    by (auto simp: check_metadata_def split: if_splits)
  have "forceOutFreq s1 = Some a" "forceRAMD s1 = Some b" "timeStep s1 = Some c"
    using s1' s0 Cons.prems(1,2,3) by simp_all
  from Cons.IH[OF this rest] show ?case using p same by simp
qed

lemma load_logs_metadata:
  assumes "parse_ramd_log_file ext f = Inr (trajs, a, b, c)"
    and "snd (load_logs ext (f # fs)) = Inr st"
  shows "forceOutFreq st = Some a \<and> forceRAMD st = Some b \<and> timeStep st = Some c \<and>
         (\<forall>g\<in>set fs. \<exists>tr. parse_ramd_log_file ext g = Inr (tr, a, b, c))"
proof -
  let ?st = "\<lparr>trajectory_list = trajs, trajectories = Some trajs,
          forceOutFreq = Some a, forceRAMD = Some b, timeStep = Some c\<rparr>"
  have "snd (for_each (load_file ext) fs ?st) = Inr st"
    using assms(2) by (simp add: snd_load_logs_Cons load_first[OF assms(1)])
  then show ?thesis using load_rest_metadata[of ?st a b c ext fs st] by simp
qed

lemma analyze_log_later_events:
  assumes "ev \<in> set (fst (analyze_log ext files nm nb v))"
    and "ev \<notin> range Print" "ev \<notin> range Call_parse"
  shows "\<exists>r st. snd (load_logs ext files) = Inr st \<and>
           ev \<in> set (fst (analyze_loaded ext nm nb v r st))"
proof -
  have a: "ev \<notin> set (fst (load_logs ext files))"
    using load_logs_events[of ext files] assms(3) by auto
  have b: "ev \<notin> set (fst (print_loaded v st :: (('a, 'b) event, unit) run))" for st :: "'a load_state"
    using print_loaded_events[of v st] assms(2) by auto
  show ?thesis
    using assms(1,2) a b unfolding fst_analyze_log
    by (auto split: sum.splits if_splits)
qed

lemma and_then_lift_Inr [simp]: "and_then (lift (Inr x)) f = f x"
  by (simp add: and_then_def lift_def)

lemma and_then_lift_Inl [simp]: "and_then (lift (Inl e)) f = ([], Inl e)"
  by (simp add: and_then_def lift_def)

lemma sigma_call_beta_zero:
  assumes "Call_sigma P frc beta mn mx s \<in> set (fst (analyze_log ext files nm nb v))"
  shows "beta = 0"
proof -
  from assms obtain r st where
    "Call_sigma P frc beta mn mx s \<in> set (fst (analyze_loaded ext nm nb v r st))"
    using analyze_log_later_events by blast
  then show ?thesis using analyze_loaded_events by fastforce
qed

lemma bin_profiles_no_sigma:
  "Call_sigma P frc beta mn mx s \<notin> set (fst (bin_profiles ext v xi_bins ms ft nm nb))"
  using bin_profiles_events[of ext v xi_bins ms ft nm nb] by auto

lemma analyze_loaded_sigma_called:
  assumes called: "Call_sigma P frc beta mn mx s
                     \<in> set (fst (analyze_loaded ext nm nb v r st))"
  shows "snd (analyze_loaded ext nm nb v r st) =
           (case functional_expansion_1d_ramd ext P frc beta mn mx s of
              Inl e \<Rightarrow> Inl e
            | Inr calc \<Rightarrow>
                (case make_second_order_time_estimate ext calc of
                   Inl e \<Rightarrow> Inl e
                 | Inr est \<Rightarrow> Inr ()))"
    and "\<And>calc est. functional_expansion_1d_ramd ext P frc beta mn mx s = Inr calc \<Longrightarrow>
           make_second_order_time_estimate ext calc = Inr est \<Longrightarrow>
           last (fst (analyze_loaded ext nm nb v r st)) = Print (Print_time_estimate est)"
proof -
  note defs = analyze_loaded_def fst_and_then snd_and_then
  from called obtain trajs where t: "trajectories st = Some trajs"
    by (cases "trajectories st") (simp_all add: defs)
  from called t obtain one_dim where c: "condense_trajectories ext trajs = Inr one_dim"
    by (cases "condense_trajectories ext trajs") (simp_all add: defs)
  from called t c obtain ms mn' mx' s' where
    g: "uniform_milestone_locations ext one_dim nm = Inr (ms, mn', mx', s')"
    by (cases "uniform_milestone_locations ext one_dim nm") (auto simp add: defs)
  from called t c g obtain xi_bins where b: "xi_binner r nb one_dim = Inr xi_bins"
    by (cases "xi_binner r nb one_dim") (simp_all add: defs)
  from called t c g b obtain ft where f: "frame_time_of st = Inr ft"
    by (cases "frame_time_of st") (simp_all add: defs)
  from called t c g b f obtain Pr where
    p: "snd (bin_profiles ext v xi_bins ms ft nm nb) = Inr Pr"
    by (cases "snd (bin_profiles ext v xi_bins ms ft nm nb)")
       (simp_all add: defs bin_profiles_no_sigma)
  have args: "P = Pr \<and> frc = forceRAMD st \<and> beta = 0 \<and> mn = mn' \<and> mx = mx' \<and> s = s'"
    using called
    by (auto simp add: defs t c g b f p bin_profiles_no_sigma split: sum.splits)
  show "snd (analyze_loaded ext nm nb v r st) =
           (case functional_expansion_1d_ramd ext P frc beta mn mx s of
              Inl e \<Rightarrow> Inl e
            | Inr calc \<Rightarrow>
                (case make_second_order_time_estimate ext calc of
                   Inl e \<Rightarrow> Inl e
                 | Inr est \<Rightarrow> Inr ()))"
    by (simp add: defs t c g b f p args split: sum.splits)
  show "last (fst (analyze_loaded ext nm nb v r st)) = Print (Print_time_estimate est)"
    if "functional_expansion_1d_ramd ext P frc beta mn mx s = Inr calc"
      "make_second_order_time_estimate ext calc = Inr est" for calc est
    using that by (simp add: defs t c g b f p args)
qed

lemma analyze_log_reaches:
  assumes "ev \<in> set (fst (analyze_log ext files nm nb v))"
    and "ev \<notin> range Print" "ev \<notin> range Call_parse"
  obtains r st where "np_linspace (- 1) 1 (nb + 1) = Inr r"
    and "snd (load_logs ext files) = Inr st"
    and "ev \<in> set (fst (analyze_loaded ext nm nb v r st))"
    and "snd (analyze_log ext files nm nb v) = snd (analyze_loaded ext nm nb v r st)"
    and "\<exists>pre. fst (analyze_log ext files nm nb v) = pre @ fst (analyze_loaded ext nm nb v r st)"
proof -
  have a: "ev \<notin> set (fst (load_logs ext files))"
    using load_logs_events[of ext files] assms(3) by auto
  have b: "ev \<notin> set (fst (print_loaded v st :: (('a, 'b) event, unit) run))" for st :: "'a load_state"
    using print_loaded_events[of v st] assms(2) by auto
  from assms(1,2) a obtain r where r: "np_linspace (- 1) 1 (nb + 1) = Inr r"
    unfolding fst_analyze_log by (cases "np_linspace (- 1) 1 (nb + 1)") (auto split: if_splits)
  from assms(1,2) a r obtain st where st: "snd (load_logs ext files) = Inr st"
    unfolding fst_analyze_log by (cases "snd (load_logs ext files)") (auto split: if_splits)
  have ev: "ev \<in> set (fst (analyze_loaded ext nm nb v r st))"
    using assms(1,2) a b[of st] unfolding fst_analyze_log by (auto simp: r st split: if_splits)
  have s: "snd (analyze_log ext files nm nb v) = snd (analyze_loaded ext nm nb v r st)"
    by (simp add: snd_analyze_log r st)
  have f: "\<exists>pre. fst (analyze_log ext files nm nb v) = pre @ fst (analyze_loaded ext nm nb v r st)"
    unfolding fst_analyze_log by (simp add: r st)
  show ?thesis using that[OF r st ev s f] .
qed

lemma spec_sigma_reports_kinetic:
  assumes fe: "functional_expansion_1d_ramd ext = spec_functional_expansion_1d_ramd"
    and es: "make_second_order_time_estimate ext
               = spec_make_second_order_time_estimate kinetic reweighted"
    and called: "Call_sigma P frc beta mn mx s \<in> set (fst (analyze_log ext files nm nb v))"
  shows "snd (analyze_log ext files nm nb v) = Inr () \<and>
         last (fst (analyze_log ext files nm nb v))
           = Print (Print_time_estimate (kinetic P frc mn mx s))"
proof -
  have beta: "beta = 0" using called by (rule sigma_call_beta_zero)
  from called obtain r st pre where
    ev: "Call_sigma P frc beta mn mx s \<in> set (fst (analyze_loaded ext nm nb v r st))"
    and s: "snd (analyze_log ext files nm nb v) = snd (analyze_loaded ext nm nb v r st)"
    and f: "fst (analyze_log ext files nm nb v) = pre @ fst (analyze_loaded ext nm nb v r st)"
    by (rule analyze_log_reaches) auto
  let ?calc = "\<lparr>calc_profiles = P, calc_force_constant = frc, calc_beta = beta,
      calc_min_cv_val = mn, calc_max_cv_val = mx, calc_starting_cv_val = s\<rparr>"
  have c: "functional_expansion_1d_ramd ext P frc beta mn mx s = Inr ?calc"
    by (simp add: fe spec_functional_expansion_1d_ramd_def)
  have e: "make_second_order_time_estimate ext ?calc = Inr (kinetic P frc mn mx s)"
    by (simp add: es spec_make_second_order_time_estimate_def beta)
  have "snd (analyze_loaded ext nm nb v r st) = Inr ()"
    using analyze_loaded_sigma_called(1)[OF ev] c e by simp
  moreover have l: "last (fst (analyze_loaded ext nm nb v r st))
      = Print (Print_time_estimate (kinetic P frc mn mx s))"
    using analyze_loaded_sigma_called(2)[OF ev c e] .
  moreover have "fst (analyze_loaded ext nm nb v r st) \<noteq> []" using ev by auto
  ultimately show ?thesis using s f by simp
qed

section \<open>The example environment, evaluated\<close>

lemma linspace_3: "np_linspace (- 1) 1 (2 + 1) = Inr [- 1, 0, 1]"
  by (simp add: np_linspace_def upt_rec)

lemma example_run:
  "analyze_log example_externals [''a.log'', ''b.log''] 4 2 True =
     ([Print (Using_milestones 4), Print (Using_angle_bins 2),
       Call_parse ''a.log'', Call_parse ''b.log'',
       Print (Number_of_trajectories 2), Print (Print_forceOutFreq (Some 50)),
       Print (Print_forceRAMD (Some 14)), Print (Print_timeStep (Some (2 / 1000))),
       Call_condense [2],
       Call_grid [[(2, 0)]] 4,
       Print (Num_in_bin 0 1), Call_model [[(2, 0)]] [] (1 / 10) 4,
       Call_profiles (zero_matrix 4) [0, 0, 0, 0] 4,
       Print (Num_in_bin 1 0), Call_model [] [] (1 / 10) 4,
       Call_profiles (zero_matrix 4) [0, 0, 0, 0] 4,
       Call_sigma [zero_matrix 4, zero_matrix 4] (Some 14) 0 0 0 0,
       Call_estimate \<lparr>calc_profiles = [zero_matrix 4, zero_matrix 4],
                       calc_force_constant = Some 14, calc_beta = 0, calc_min_cv_val = 0,
                       calc_max_cv_val = 0, calc_starting_cv_val = 0\<rparr>,
       Print (Print_time_estimate 2)],
      Inr ())"
  by code_simp

lemma example_parse_simps:
  "parse_ramd_log_file example_externals ''a.log'' = Inr ([1], 50, 14, 2 / 1000)"
  "parse_ramd_log_file example_externals ''b.log'' = Inr ([2], 50, 14, 2 / 1000)"
  "parse_ramd_log_file example_externals ''c.log'' = Inr ([3], 50, 15, 2 / 1000)"
  by (simp_all add: example_externals_def example_parse_def)

lemma example_load_a:
  "snd (load_logs example_externals [''a.log'']) =
     Inr \<lparr>trajectory_list = [1], trajectories = Some [1],
          forceOutFreq = Some 50, forceRAMD = Some 14, timeStep = Some (2 / 1000)\<rparr>"
  by (simp add: load_logs_def snd_and_then load_first[OF example_parse_simps(1)])

section \<open>The claims\<close>

text \<open>
  Claim C1: the condensed fragments handed to the grid builder and to the binner
  are the fragments of all the files combined. The code does not do this. For two
  files with one fragment each and the same metadata, both fragments are collected
  in \<open>trajectory_list\<close> and counted in the printed line, but line 53 passes
  \<open>trajectories\<close>, the fragments of the file read last, to the condenser: the
  condenser and the grid builder (and so the binner) are given the fragment of
  \<^verbatim>\<open>b.log\<close> only, and the run ends normally.
\<close>

theorem condense_receives_last_file_only:
  "snd (load_logs example_externals [''a.log'', ''b.log'']) =
     Inr \<lparr>trajectory_list = [1, 2], trajectories = Some [2],
          forceOutFreq = Some 50, forceRAMD = Some 14, timeStep = Some (2 / 1000)\<rparr> \<and>
   Print (Number_of_trajectories 2)
     \<in> set (fst (analyze_log example_externals [''a.log'', ''b.log''] 4 2 True)) \<and>
   Call_condense [2]
     \<in> set (fst (analyze_log example_externals [''a.log'', ''b.log''] 4 2 True)) \<and>
   Call_condense [1, 2]
     \<notin> set (fst (analyze_log example_externals [''a.log'', ''b.log''] 4 2 True)) \<and>
   Call_grid [[(2, 0)]] 4
     \<in> set (fst (analyze_log example_externals [''a.log'', ''b.log''] 4 2 True)) \<and>
   Call_grid [[(1, 0)], [(2, 0)]] 4
     \<notin> set (fst (analyze_log example_externals [''a.log'', ''b.log''] 4 2 True)) \<and>
   snd (analyze_log example_externals [''a.log'', ''b.log''] 4 2 True) = Inr ()"
proof -
  have "snd (load_logs example_externals [''a.log'', ''b.log'']) =
     Inr \<lparr>trajectory_list = [1, 2], trajectories = Some [2],
          forceOutFreq = Some 50, forceRAMD = Some 14, timeStep = Some (2 / 1000)\<rparr>"
    by (simp add: load_logs_def snd_and_then snd_load_file example_parse_simps
          check_metadata_def initial_state_def)
  then show ?thesis by (simp add: example_run)
qed

text \<open>
  Claim C2. With at least one bin, every list of fragments whose first frames have
  a xi value in \<open>[-1, 1]\<close> is binned without error: there are \<open>num_xi_bins\<close> bins, the
  bin \<open>j\<close> holds exactly the fragments for which the scan of lines 66-71 stops at
  \<open>j\<close> (in their order), every fragment is in exactly one bin, the sizes of the bins
  add up to the number of fragments, and the intervals of the bins cover exactly
  \<open>[-1, 1]\<close>.
\<close>

theorem xi_binner_partition:
  assumes nb: "1 \<le> num_xi_bins"
    and tr: "\<forall>t\<in>set one_dim_trajs. t \<noteq> [] \<and> - 1 \<le> snd (hd t) \<and> snd (hd t) \<le> 1"
  shows "\<exists>xi_bins_ranges xi_bins.
      np_linspace (- 1) 1 (num_xi_bins + 1) = Inr xi_bins_ranges \<and>
      xi_binner xi_bins_ranges num_xi_bins one_dim_trajs = Inr xi_bins \<and>
      length xi_bins = nat num_xi_bins \<and>
      (\<forall>j<nat num_xi_bins. xi_bins ! j =
         filter (\<lambda>t. find_bin xi_bins_ranges (snd (hd t)) (py_range num_xi_bins) = Inr (Some j))
           one_dim_trajs) \<and>
      (\<forall>t\<in>set one_dim_trajs. \<exists>!j. j < nat num_xi_bins \<and> t \<in> set (xi_bins ! j)) \<and>
      sum_list (map length xi_bins) = length one_dim_trajs \<and>
      (\<Union>j<nat num_xi_bins. {xi_bins_ranges ! j .. xi_bins_ranges ! (j + 1)}) = {- 1 .. 1}"
proof -
  let ?n = "nat num_xi_bins"
  obtain r where r: "np_linspace (- 1) 1 (num_xi_bins + 1) = Inr r"
    using linspace_grid[OF nb] by blast
  have len: "?n = 0 \<or> length r = ?n + 1" using grid_nth(1)[OF nb r] by simp
  let ?F = "\<lambda>t. List.find (\<lambda>j. r ! j \<le> snd (hd t) \<and> snd (hd t) \<le> r ! (j + 1)) [0..<?n]"
  have fb: "\<And>x. find_bin r x (py_range num_xi_bins) =
              Inr (List.find (\<lambda>j. r ! j \<le> x \<and> x \<le> r ! (j + 1)) [0..<?n])"
    using find_bin_range[OF refl len] .
  have found: "\<forall>t\<in>set one_dim_trajs. t \<noteq> [] \<and> ?F t \<noteq> None"
  proof
    fix t assume t: "t \<in> set one_dim_trajs"
    then have "\<exists>j<?n. r ! j \<le> snd (hd t) \<and> snd (hd t) \<le> r ! (j + 1)"
      using grid_cover[OF nb r] tr by blast
    then show "t \<noteq> [] \<and> ?F t \<noteq> None" using t tr by (auto simp: find_upt_None)
  qed
  have len0: "length (map (\<lambda>j. [] :: fragment list) (py_range num_xi_bins)) = ?n"
    by (simp add: py_range_def)
  obtain bins where bins: "xi_binner r num_xi_bins one_dim_trajs = Inr bins"
    and lb: "length bins = ?n"
    and nth: "\<forall>j<?n. bins ! j =
        map (\<lambda>j. []) (py_range num_xi_bins) ! j @ filter (\<lambda>t. ?F t = Some j) one_dim_trajs"
    unfolding xi_binner_def using place_all_ok[OF len refl len0 found] by blast
  have emp: "\<forall>j<?n. map (\<lambda>j. [] :: fragment list) (py_range num_xi_bins) ! j = []"
    by (simp add: py_range_def)
  have nth': "\<forall>j<?n. bins ! j =
        filter (\<lambda>t. find_bin r (snd (hd t)) (py_range num_xi_bins) = Inr (Some j)) one_dim_trajs"
    using nth emp by (simp add: fb)
  have uniq: "\<forall>t\<in>set one_dim_trajs. \<exists>!j. j < ?n \<and> t \<in> set (bins ! j)"
  proof
    fix t assume t: "t \<in> set one_dim_trajs"
    then obtain k where k: "?F t = Some k" using found by auto
    then have kn: "k < ?n" by (simp add: find_upt_Some)
    show "\<exists>!j. j < ?n \<and> t \<in> set (bins ! j)"
    proof (rule ex1I[of _ k])
      show "k < ?n \<and> t \<in> set (bins ! k)" using kn k t nth emp by simp
    next
      fix j assume "j < ?n \<and> t \<in> set (bins ! j)"
      then have "j < ?n" "t \<in> set (bins ! j)" by simp_all
      moreover have "bins ! j = filter (\<lambda>t. ?F t = Some j) one_dim_trajs"
        using nth emp \<open>j < ?n\<close> by simp
      ultimately show "j = k" using k by simp
    qed
  qed
  have cnt: "sum_list (map length bins) = length one_dim_trajs"
    using place_all_count[OF bins[unfolded xi_binner_def]] by (simp add: comp_def)
  show ?thesis
    by (rule exI[of _ r], rule exI[of _ bins])
       (intro conjI r bins lb nth' uniq cnt grid_union[OF nb r])
qed

theorem xi_binner_partition_witness:
  "\<exists>xi_bins_ranges xi_bins.
      np_linspace (- 1) 1 (2 + 1) = Inr xi_bins_ranges \<and>
      xi_binner xi_bins_ranges 2 [[(0, - 1)], [(1, 0), (2, 5)], [(3, 1)]] = Inr xi_bins \<and>
      length xi_bins = 2 \<and>
      sum_list (map length xi_bins) = 3"
proof -
  have h: "\<forall>t\<in>set [[(0::real, - 1::real)], [(1, 0), (2, 5)], [(3, 1)]].
          t \<noteq> [] \<and> - 1 \<le> snd (hd t) \<and> snd (hd t) \<le> 1"
    by simp
  have nb: "(1::int) \<le> 2" by simp
  obtain r b where "np_linspace (- 1) 1 (2 + 1) = Inr r"
    "xi_binner r 2 [[(0, - 1)], [(1, 0), (2, 5)], [(3, 1)]] = Inr b"
    "length b = nat 2"
    "sum_list (map length b) = length [[(0::real, - 1::real)], [(1, 0), (2, 5)], [(3, 1)]]"
    using xi_binner_partition[OF nb h] by (elim exE conjE) (rule that)
  then show ?thesis by (intro exI[of _ r] exI[of _ b]) simp
qed

text \<open>
  Claim C3. Let every file of the list be parsed without error and let line 25
  succeed. If a file after the first reports a \<open>forceOutFreq\<close>, \<open>forceRAMD\<close> or
  \<open>timeStep\<close> that differs from the first file's, the analysis ends with the
  \<open>AssertionError\<close> of lines 38-40, and up to then it has only printed and called
  the parser: no condensing, no grid, no model and no expansion has been asked for
  (the statement holds for every environment, also one whose modelling functions
  always fail, so none of them has been called). If all files report the values of
  the first, the loop ends normally with the fragments of all files concatenated
  in \<open>trajectory_list\<close>.
\<close>

theorem metadata_mismatch_is_fatal:
  assumes parsed: "map (parse_ramd_log_file ext) (f # fs) = map Inr (r0 # rs)"
    and nb: "- 1 \<le> num_xi_bins"
  shows "((\<exists>r\<in>set rs. snd r \<noteq> snd r0) \<longrightarrow>
            (\<exists>msg. snd (analyze_log ext (f # fs) num_milestones num_xi_bins verbose)
                      = Inl (AssertionError msg)) \<and>
            (\<forall>ev\<in>set (fst (analyze_log ext (f # fs) num_milestones num_xi_bins verbose)).
               (\<exists>p. ev = Print p) \<or> (\<exists>g. ev = Call_parse g))) \<and>
         ((\<forall>r\<in>set rs. snd r = snd r0) \<longrightarrow>
            snd (load_logs ext (f # fs)) =
              Inr \<lparr>trajectory_list = concat (map fst (r0 # rs)),
                   trajectories = Some (fst (last (r0 # rs))),
                   forceOutFreq = Some (fst (snd r0)),
                   forceRAMD = Some (fst (snd (snd r0))),
                   timeStep = Some (snd (snd (snd r0)))\<rparr>)"
proof -
  obtain trajs a b c where r0: "r0 = (trajs, a, b, c)" by (cases r0) auto
  have p0: "parse_ramd_log_file ext f = Inr (trajs, a, b, c)" using parsed r0 by simp
  have prs: "map (parse_ramd_log_file ext) fs = map Inr rs" using parsed by simp
  let ?st = "\<lparr>trajectory_list = trajs, trajectories = Some trajs,
          forceOutFreq = Some a, forceRAMD = Some b, timeStep = Some c\<rparr>"
  have first: "snd (load_file ext f initial_state) = Inr ?st" using load_first[OF p0] .
  have load: "snd (load_logs ext (f # fs)) = snd (for_each (load_file ext) fs ?st)"
    by (simp add: snd_load_logs_Cons first)
  obtain r where r: "np_linspace (- 1) 1 (num_xi_bins + 1) = Inr r"
    using linspace_ok[OF nb] by blast
  have bad: "(\<exists>msg. snd (analyze_log ext (f # fs) num_milestones num_xi_bins verbose)
                      = Inl (AssertionError msg)) \<and>
            (\<forall>ev\<in>set (fst (analyze_log ext (f # fs) num_milestones num_xi_bins verbose)).
               (\<exists>p. ev = Print p) \<or> (\<exists>g. ev = Call_parse g))"
    if mm: "\<exists>r\<in>set rs. snd r \<noteq> snd r0"
  proof -
    have "\<exists>r\<in>set rs. snd r \<noteq> (a, b, c)" using mm r0 by simp
    then obtain msg where msg: "snd (for_each (load_file ext) fs ?st) = Inl (AssertionError msg)"
      using load_rest_fail[of ?st a b c ext fs rs] prs by auto
    have res: "snd (analyze_log ext (f # fs) num_milestones num_xi_bins verbose)
                 = Inl (AssertionError msg)"
      by (simp add: snd_analyze_log r load msg)
    have "set (fst (analyze_log ext (f # fs) num_milestones num_xi_bins verbose))
            \<subseteq> range Print \<union> Call_parse ` set (f # fs)"
      unfolding fst_analyze_log using load_logs_events[of ext "f # fs"]
      by (auto simp: r load msg)
    then have "\<forall>ev\<in>set (fst (analyze_log ext (f # fs) num_milestones num_xi_bins verbose)).
               (\<exists>p. ev = Print p) \<or> (\<exists>g. ev = Call_parse g)"
      by blast
    then show ?thesis using res by blast
  qed
  have good: "snd (load_logs ext (f # fs)) =
              Inr \<lparr>trajectory_list = concat (map fst (r0 # rs)),
                   trajectories = Some (fst (last (r0 # rs))),
                   forceOutFreq = Some (fst (snd r0)),
                   forceRAMD = Some (fst (snd (snd r0))),
                   timeStep = Some (snd (snd (snd r0)))\<rparr>"
    if same: "\<forall>r\<in>set rs. snd r = snd r0"
  proof -
    have "\<forall>r\<in>set rs. snd r = (a, b, c)" using same r0 by simp
    then have "snd (for_each (load_file ext) fs ?st) =
           Inr (?st\<lparr>trajectories := (if rs = [] then trajectories ?st else Some (fst (last rs))),
                   trajectory_list := trajectory_list ?st @ concat (map fst rs)\<rparr>)"
      using load_rest_ok[of ?st a b c ext fs rs] prs by simp
    then show ?thesis using load r0 by simp
  qed
  show ?thesis using bad good by blast
qed

theorem metadata_mismatch_is_fatal_witness:
  "(\<exists>msg. snd (analyze_log example_externals [''a.log'', ''c.log''] 10 5 True)
            = Inl (AssertionError msg)) \<and>
   snd (load_logs example_externals [''a.log'', ''b.log'']) =
     Inr \<lparr>trajectory_list = [1, 2], trajectories = Some [2],
          forceOutFreq = Some 50, forceRAMD = Some 14, timeStep = Some (2 / 1000)\<rparr>"
proof -
  have nb: "- 1 \<le> (5::int)" by simp
  have pc: "map (parse_ramd_log_file example_externals) [''a.log'', ''c.log'']
          = map Inr [([1], 50, 14, 2 / 1000), ([3], 50, 15, 2 / 1000)]"
    by (simp add: example_parse_simps)
  have pb: "map (parse_ramd_log_file example_externals) [''a.log'', ''b.log'']
          = map Inr [([1], 50, 14, 2 / 1000), ([2], 50, 14, 2 / 1000)]"
    by (simp add: example_parse_simps)
  have bad: "\<exists>r\<in>set [([3::nat], 50::int, 15::real, 2 / 1000 :: real)].
               snd r \<noteq> snd ([1::nat], 50::int, 14::real, 2 / 1000 :: real)"
    by simp
  have good: "\<forall>r\<in>set [([2::nat], 50::int, 14::real, 2 / 1000 :: real)].
               snd r = snd ([1::nat], 50::int, 14::real, 2 / 1000 :: real)"
    by simp
  have "\<exists>msg. snd (analyze_log example_externals [''a.log'', ''c.log''] 10 5 True)
            = Inl (AssertionError msg)"
    using metadata_mismatch_is_fatal[OF pc nb, of 10 True, THEN conjunct1, THEN mp, OF bad]
    by blast
  moreover have "snd (load_logs example_externals [''a.log'', ''b.log'']) =
     Inr \<lparr>trajectory_list = [1, 2], trajectories = Some [2],
          forceOutFreq = Some 50, forceRAMD = Some 14, timeStep = Some (2 / 1000)\<rparr>"
    using metadata_mismatch_is_fatal[OF pb nb, THEN conjunct2, THEN mp, OF good] by simp
  ultimately show ?thesis by (rule conjI)
qed

text \<open>
  Claim C4. When line 25 has succeeded and every fragment has a first frame, a
  fragment whose first xi value is below \<open>-1\<close> or above \<open>1\<close> is never appended to a
  bin: the loop body raises the exception of line 74 for it, and the binner as a
  whole ends with that exception (for the first fragment that finds no bin, which,
  with at least one bin, is a fragment out of range).
\<close>

theorem xi_out_of_range_not_placed:
  assumes lin: "np_linspace (- 1) 1 (num_xi_bins + 1) = Inr r"
    and ne: "\<forall>u\<in>set one_dim_trajs. u \<noteq> []"
    and t: "t \<in> set one_dim_trajs"
    and out: "snd (hd t) < - 1 \<or> 1 < snd (hd t)"
  shows "(\<forall>xi_bins. length xi_bins = nat num_xi_bins \<longrightarrow>
            place_trajectory r num_xi_bins t xi_bins = Inl (Exception_not_placed (snd (hd t)))) \<and>
         (\<exists>u\<in>set one_dim_trajs.
            xi_binner r num_xi_bins one_dim_trajs = Inl (Exception_not_placed (snd (hd u))) \<and>
            (1 \<le> num_xi_bins \<longrightarrow> snd (hd u) < - 1 \<or> 1 < snd (hd u)))"
proof -
  let ?n = "nat num_xi_bins"
  let ?F = "\<lambda>t. List.find (\<lambda>j. r ! j \<le> snd (hd t) \<and> snd (hd t) \<le> r ! (j + 1)) [0..<?n]"
  have len: "?n = 0 \<or> length r = ?n + 1" using linspace_length[OF lin] .
  have inside: "- 1 \<le> snd (hd u) \<and> snd (hd u) \<le> 1"
    if "1 \<le> num_xi_bins" "?F u \<noteq> None" for u :: fragment
  proof -
    from that(2) obtain j where j: "j < ?n" "r ! j \<le> snd (hd u)" "snd (hd u) \<le> r ! (j + 1)"
      by (auto simp: find_upt_None)
    have "- 1 \<le> r ! j" using grid_bounds(1)[OF that(1) lin, of j] j by simp
    moreover have "r ! (j + 1) \<le> 1" using grid_bounds(2)[OF that(1) lin, of "j + 1"] j by simp
    ultimately show ?thesis using j by simp
  qed
  have Ft: "?F t = None"
  proof (cases "1 \<le> num_xi_bins")
    case True
    then show ?thesis using inside[of t] out by fastforce
  next
    case False
    then show ?thesis by simp
  qed
  have tne: "t \<noteq> []" using ne t by simp
  have one: "\<forall>xi_bins. length xi_bins = ?n \<longrightarrow>
            place_trajectory r num_xi_bins t xi_bins = Inl (Exception_not_placed (snd (hd t)))"
    using place_trajectory_eq[OF tne len refl] Ft by simp
  have "\<exists>u\<in>set one_dim_trajs. ?F u = None" using t Ft by blast
  then obtain pre u post where sp: "one_dim_trajs = pre @ u # post" "?F u = None"
    "\<forall>y\<in>set pre. ?F y \<noteq> None"
    using split_list_first_prop[of one_dim_trajs "\<lambda>u. ?F u = None"] by blast
  have pre: "\<forall>y\<in>set pre. y \<noteq> [] \<and> ?F y \<noteq> None" using sp ne by simp
  have une: "u \<noteq> []" using sp ne by simp
  have len0: "length (map (\<lambda>j. [] :: fragment list) (py_range num_xi_bins)) = ?n"
    by (simp add: py_range_def)
  have res: "xi_binner r num_xi_bins one_dim_trajs = Inl (Exception_not_placed (snd (hd u)))"
    unfolding xi_binner_def sp(1)
    using place_all_fail[OF len refl len0 pre une sp(2)] .
  have uout: "1 \<le> num_xi_bins \<longrightarrow> snd (hd u) < - 1 \<or> 1 < snd (hd u)"
  proof
    assume nb: "1 \<le> num_xi_bins"
    have "\<not> (- 1 \<le> snd (hd u) \<and> snd (hd u) \<le> 1)"
    proof
      assume "- 1 \<le> snd (hd u) \<and> snd (hd u) \<le> 1"
      then have "\<exists>j<?n. r ! j \<le> snd (hd u) \<and> snd (hd u) \<le> r ! (j + 1)"
        using grid_cover[OF nb lin] by simp
      then show False using sp(2) by (auto simp: find_upt_None)
    qed
    then show "snd (hd u) < - 1 \<or> 1 < snd (hd u)" by auto
  qed
  have "u \<in> set one_dim_trajs" using sp(1) by simp
  then have two: "\<exists>u\<in>set one_dim_trajs.
            xi_binner r num_xi_bins one_dim_trajs = Inl (Exception_not_placed (snd (hd u))) \<and>
            (1 \<le> num_xi_bins \<longrightarrow> snd (hd u) < - 1 \<or> 1 < snd (hd u))"
    using res uout by blast
  show ?thesis using one two by (rule conjI)
qed

theorem xi_out_of_range_not_placed_witness:
  "np_linspace (- 1) 1 (2 + 1) = Inr [- 1, 0, 1] \<and>
   xi_binner [- 1, 0, 1] 2 [[(0, 1 / 2)], [(1, 3 / 2), (2, 0)]]
     = Inl (Exception_not_placed (3 / 2))"
proof -
  have ne: "\<forall>u\<in>set [[(0::real, 1 / 2 :: real)], [(1, 3 / 2), (2, 0)]]. u \<noteq> []" by simp
  have t: "[(1::real, 3 / 2 :: real), (2, 0)] \<in> set [[(0, 1 / 2)], [(1, 3 / 2), (2, 0)]]" by simp
  have out: "snd (hd [(1::real, 3 / 2 :: real), (2, 0)]) < - 1 \<or>
             1 < snd (hd [(1::real, 3 / 2 :: real), (2, 0)])" by simp
  show ?thesis
    using xi_out_of_range_not_placed[OF linspace_3 ne t out] linspace_3 by simp
qed

text \<open>
  Claim C5. With at least one bin, line 25 yields \<open>num_xi_bins + 1\<close> boundaries from
  \<open>-1\<close> to \<open>1\<close>, consecutive ones \<open>2 / num_xi_bins\<close> apart. The scan of a xi value
  stops at \<open>j\<close> exactly when \<open>j\<close> is the least index whose interval, closed at both
  ends, contains the value; a value equal to an interior boundary \<open>r ! j\<close> stops at
  the lower bin \<open>j - 1\<close>; and the fragment is appended to that one bin only.
\<close>

theorem xi_bins_first_matching_interval:
  assumes nb: "1 \<le> num_xi_bins"
  shows "\<exists>r. np_linspace (- 1) 1 (num_xi_bins + 1) = Inr r \<and>
      length r = nat num_xi_bins + 1 \<and>
      r ! 0 = - 1 \<and> r ! nat num_xi_bins = 1 \<and>
      (\<forall>j<nat num_xi_bins. r ! (j + 1) - r ! j = 2 / of_int num_xi_bins) \<and>
      (\<forall>x j. find_bin r x (py_range num_xi_bins) = Inr (Some j) \<longleftrightarrow>
         j < nat num_xi_bins \<and> (r ! j \<le> x \<and> x \<le> r ! (j + 1)) \<and>
         (\<forall>i<j. \<not> (r ! i \<le> x \<and> x \<le> r ! (i + 1)))) \<and>
      (\<forall>j. 0 < j \<and> j < nat num_xi_bins \<longrightarrow>
         find_bin r (r ! j) (py_range num_xi_bins) = Inr (Some (j - 1))) \<and>
      (\<forall>t xi_bins j. t \<noteq> [] \<and> length xi_bins = nat num_xi_bins \<and>
         find_bin r (snd (hd t)) (py_range num_xi_bins) = Inr (Some j) \<longrightarrow>
         place_trajectory r num_xi_bins t xi_bins = Inr (xi_bins[j := xi_bins ! j @ [t]]))"
proof -
  let ?n = "nat num_xi_bins"
  obtain r where r: "np_linspace (- 1) 1 (num_xi_bins + 1) = Inr r"
    using linspace_grid[OF nb] by blast
  have len: "length r = ?n + 1" using grid_nth(1)[OF nb r] .
  have len': "?n = 0 \<or> length r = ?n + 1" using len by simp
  have fb: "\<And>x. find_bin r x (py_range num_xi_bins) =
              Inr (List.find (\<lambda>j. r ! j \<le> x \<and> x \<le> r ! (j + 1)) [0..<?n])"
    using find_bin_range[OF refl len'] .
  have width: "\<forall>j<?n. r ! (j + 1) - r ! j = 2 / of_int num_xi_bins"
  proof (intro allI impI)
    fix j assume "j < ?n"
    then have "r ! j = - 1 + real j * (2 / of_int num_xi_bins)"
      "r ! (j + 1) = - 1 + real (j + 1) * (2 / of_int num_xi_bins)"
      using grid_nth(2)[OF nb r] by simp_all
    moreover have "real (j + 1) * (2 / of_int num_xi_bins) =
        real j * (2 / of_int num_xi_bins) + 2 / of_int num_xi_bins"
      by (simp add: distrib_right add_divide_distrib)
    ultimately show "r ! (j + 1) - r ! j = 2 / of_int num_xi_bins"
      by linarith
  qed
  have scan: "\<forall>x j. find_bin r x (py_range num_xi_bins) = Inr (Some j) \<longleftrightarrow>
         j < ?n \<and> (r ! j \<le> x \<and> x \<le> r ! (j + 1)) \<and>
         (\<forall>i<j. \<not> (r ! i \<le> x \<and> x \<le> r ! (i + 1)))"
    unfolding fb by (simp add: find_upt_Some)
  have boundary: "\<forall>j. 0 < j \<and> j < ?n \<longrightarrow>
         find_bin r (r ! j) (py_range num_xi_bins) = Inr (Some (j - 1))"
  proof (intro allI impI)
    fix j assume j: "0 < j \<and> j < ?n"
    have a: "r ! (j - 1) \<le> r ! j"
      using grid_strict_mono[OF nb r, of "j - 1" j] j by simp
    have b: "\<forall>i<j - 1. \<not> (r ! i \<le> r ! j \<and> r ! j \<le> r ! (i + 1))"
    proof (intro allI impI)
      fix i assume "i < j - 1"
      then have "r ! (i + 1) < r ! j"
        using grid_strict_mono[OF nb r, of "i + 1" j] j by simp
      then show "\<not> (r ! i \<le> r ! j \<and> r ! j \<le> r ! (i + 1))" by simp
    qed
    have "List.find (\<lambda>i. r ! i \<le> r ! j \<and> r ! j \<le> r ! (i + 1)) [0..<?n] = Some (j - 1)"
      unfolding find_upt_Some using j a b by auto
    then show "find_bin r (r ! j) (py_range num_xi_bins) = Inr (Some (j - 1))"
      unfolding fb by simp
  qed
  have place: "\<forall>t xi_bins j. t \<noteq> [] \<and> length xi_bins = ?n \<and>
         find_bin r (snd (hd t)) (py_range num_xi_bins) = Inr (Some j) \<longrightarrow>
         place_trajectory r num_xi_bins t xi_bins = Inr (xi_bins[j := xi_bins ! j @ [t]])"
  proof (intro allI impI)
    fix t :: fragment and xi_bins :: "fragment list list" and j
    assume a: "t \<noteq> [] \<and> length xi_bins = ?n \<and>
         find_bin r (snd (hd t)) (py_range num_xi_bins) = Inr (Some j)"
    then have "List.find (\<lambda>j. r ! j \<le> snd (hd t) \<and> snd (hd t) \<le> r ! (j + 1)) [0..<?n] = Some j"
      unfolding fb by simp
    then show "place_trajectory r num_xi_bins t xi_bins = Inr (xi_bins[j := xi_bins ! j @ [t]])"
      using place_trajectory_eq[OF _ len' refl, of t xi_bins] a by simp
  qed
  show ?thesis
    by (rule exI[of _ r])
       (intro conjI r len grid_ends[OF nb r] width scan boundary place)
qed

theorem xi_bins_first_matching_interval_witness:
  "(1::int) \<le> 5 \<and>
   (\<exists>r. np_linspace (- 1) 1 (5 + 1) = Inr r \<and> length r = 6 \<and> r ! 0 = - 1 \<and>
        r ! 1 - r ! 0 = 2 / 5 \<and>
        find_bin r (r ! 1) (py_range 5) = Inr (Some 0))"
proof -
  have nb: "(1::int) \<le> 5" by simp
  obtain r where r: "np_linspace (- 1) 1 (5 + 1) = Inr r" "length r = nat 5 + 1" "r ! 0 = - 1"
    "\<forall>j<nat 5. r ! (j + 1) - r ! j = 2 / of_int 5"
    "\<forall>j. 0 < j \<and> j < nat 5 \<longrightarrow> find_bin r (r ! j) (py_range 5) = Inr (Some (j - 1))"
    using xi_bins_first_matching_interval[OF nb] by (elim exE conjE) (rule that)
  have "find_bin r (r ! 1) (py_range 5) = Inr (Some 0)" using r(5)[rule_format, of 1] by simp
  moreover have "r ! 1 - r ! 0 = 2 / 5" using r(4)[rule_format, of 0] by simp
  ultimately show ?thesis using r(1,2,3) nb by (intro conjI exI[of _ r]) simp_all
qed

text \<open>
  Claim C6. Whatever the files and the parameters, every call of
  \<^verbatim>\<open>sigma_ramd.functional_expansion_1d_ramd\<close> made by the analysis has \<open>beta = 0\<close>, and
  a run that ends normally has made such a call and prints, as its last line, the
  estimate computed from the object that call returned. With the expander of the
  specification, whatever its two formulas: once the analysis calls the expander,
  the run ends normally and the estimate printed is the purely kinetic one of the
  arguments of that call; the thermodynamically corrected estimate is never used.
\<close>

theorem sigma_expander_gets_beta_zero:
  "(\<forall>P frc beta mn mx s.
      Call_sigma P frc beta mn mx s
        \<in> set (fst (analyze_log ext ramd_log_file_list num_milestones num_xi_bins verbose))
      \<longrightarrow> beta = 0) \<and>
   (snd (analyze_log ext ramd_log_file_list num_milestones num_xi_bins verbose) = Inr () \<longrightarrow>
      (\<exists>P frc mn mx s calc est.
         Call_sigma P frc 0 mn mx s
           \<in> set (fst (analyze_log ext ramd_log_file_list num_milestones num_xi_bins verbose)) \<and>
         functional_expansion_1d_ramd ext P frc 0 mn mx s = Inr calc \<and>
         make_second_order_time_estimate ext calc = Inr est \<and>
         last (fst (analyze_log ext ramd_log_file_list num_milestones num_xi_bins verbose))
           = Print (Print_time_estimate est))) \<and>
   (\<forall>kinetic reweighted P frc beta mn mx s.
      functional_expansion_1d_ramd ext = spec_functional_expansion_1d_ramd \<and>
      make_second_order_time_estimate ext
        = spec_make_second_order_time_estimate kinetic reweighted \<and>
      Call_sigma P frc beta mn mx s
        \<in> set (fst (analyze_log ext ramd_log_file_list num_milestones num_xi_bins verbose))
      \<longrightarrow>
      snd (analyze_log ext ramd_log_file_list num_milestones num_xi_bins verbose) = Inr () \<and>
      last (fst (analyze_log ext ramd_log_file_list num_milestones num_xi_bins verbose))
        = Print (Print_time_estimate (kinetic P frc mn mx s)))"
proof (intro conjI allI impI)
  fix P frc beta mn mx s
  assume "Call_sigma P frc beta mn mx s
        \<in> set (fst (analyze_log ext ramd_log_file_list num_milestones num_xi_bins verbose))"
  then show "beta = 0" by (rule sigma_call_beta_zero)
next
  assume ok: "snd (analyze_log ext ramd_log_file_list num_milestones num_xi_bins verbose) = Inr ()"
  then obtain r st where r: "np_linspace (- 1) 1 (num_xi_bins + 1) = Inr r"
    and st: "snd (load_logs ext ramd_log_file_list) = Inr st"
    and al: "snd (analyze_loaded ext num_milestones num_xi_bins verbose r st) = Inr ()"
    by (auto simp: snd_analyze_log split: sum.splits)
  from analyze_loaded_success[OF al] obtain trajs one_dim ms mn mx s xi_bins ft P calc est where
    s: "functional_expansion_1d_ramd ext P (forceRAMD st) 0 mn mx s = Inr calc"
    and e: "make_second_order_time_estimate ext calc = Inr est"
    and ev: "fst (analyze_loaded ext num_milestones num_xi_bins verbose r st) =
       [Call_condense trajs, Call_grid one_dim num_milestones] @
       fst (bin_profiles ext verbose xi_bins ms ft num_milestones num_xi_bins) @
       [Call_sigma P (forceRAMD st) 0 mn mx s, Call_estimate calc,
        Print (Print_time_estimate est)]"
    by blast
  have tr: "fst (analyze_log ext ramd_log_file_list num_milestones num_xi_bins verbose) =
     (if verbose then [Print (Using_milestones num_milestones), Print (Using_angle_bins num_xi_bins)]
      else []) @ fst (load_logs ext ramd_log_file_list) @
     fst (print_loaded verbose st :: (('a, sigma_calc) event, unit) run) @
     fst (analyze_loaded ext num_milestones num_xi_bins verbose r st)"
    unfolding fst_analyze_log by (simp add: r st)
  have c: "Call_sigma P (forceRAMD st) 0 mn mx s
           \<in> set (fst (analyze_log ext ramd_log_file_list num_milestones num_xi_bins verbose))"
    unfolding tr ev by simp
  have l: "last (fst (analyze_log ext ramd_log_file_list num_milestones num_xi_bins verbose))
           = Print (Print_time_estimate est)"
    unfolding tr ev by simp
  show "\<exists>P frc mn mx s calc est.
         Call_sigma P frc 0 mn mx s
           \<in> set (fst (analyze_log ext ramd_log_file_list num_milestones num_xi_bins verbose)) \<and>
         functional_expansion_1d_ramd ext P frc 0 mn mx s = Inr calc \<and>
         make_second_order_time_estimate ext calc = Inr est \<and>
         last (fst (analyze_log ext ramd_log_file_list num_milestones num_xi_bins verbose))
           = Print (Print_time_estimate est)"
    using c s e l by blast
next
  fix kinetic reweighted P frc beta mn mx s
  assume a: "functional_expansion_1d_ramd ext = spec_functional_expansion_1d_ramd \<and>
      make_second_order_time_estimate ext
        = spec_make_second_order_time_estimate kinetic reweighted \<and>
      Call_sigma P frc beta mn mx s
        \<in> set (fst (analyze_log ext ramd_log_file_list num_milestones num_xi_bins verbose))"
  then have "snd (analyze_log ext ramd_log_file_list num_milestones num_xi_bins verbose) = Inr () \<and>
      last (fst (analyze_log ext ramd_log_file_list num_milestones num_xi_bins verbose))
        = Print (Print_time_estimate (kinetic P frc mn mx s))"
    using spec_sigma_reports_kinetic[of ext kinetic reweighted P frc beta mn mx s] by blast
  then show "snd (analyze_log ext ramd_log_file_list num_milestones num_xi_bins verbose) = Inr ()"
    and "last (fst (analyze_log ext ramd_log_file_list num_milestones num_xi_bins verbose))
        = Print (Print_time_estimate (kinetic P frc mn mx s))"
    by simp_all
qed

theorem sigma_expander_gets_beta_zero_witness:
  "Call_sigma [zero_matrix 4, zero_matrix 4] (Some 14) 0 0 0 0
     \<in> set (fst (analyze_log example_externals [''a.log'', ''b.log''] 4 2 True)) \<and>
   snd (analyze_log example_externals [''a.log'', ''b.log''] 4 2 True) = Inr () \<and>
   last (fst (analyze_log example_externals [''a.log'', ''b.log''] 4 2 True))
     = Print (Print_time_estimate 2)"
proof -
  let ?run = "analyze_log example_externals [''a.log'', ''b.log''] 4 2 True"
  let ?kin = "\<lambda>(profiles :: matrix list) (force_constant :: real option)
                (min_cv_val :: real) (max_cv_val :: real) (starting_cv_val :: real).
                real (length profiles)"
  have called: "Call_sigma [zero_matrix 4, zero_matrix 4] (Some 14) 0 0 0 0 \<in> set (fst ?run)"
    by (simp add: example_run)
  have sp: "functional_expansion_1d_ramd example_externals = spec_functional_expansion_1d_ramd \<and>
            make_second_order_time_estimate example_externals
              = spec_make_second_order_time_estimate ?kin (\<lambda>calc. - 1) \<and>
            Call_sigma [zero_matrix 4, zero_matrix 4] (Some 14) 0 0 0 0 \<in> set (fst ?run)"
    using called by (simp add: example_externals_def)
  have "snd ?run = Inr () \<and>
        last (fst ?run)
          = Print (Print_time_estimate (?kin [zero_matrix 4, zero_matrix 4] (Some 14) 0 0 0))"
    using sigma_expander_gets_beta_zero[of example_externals "[''a.log'', ''b.log'']" 4 2 True,
      THEN conjunct2, THEN conjunct2, rule_format, OF sp] .
  then show ?thesis using called by simp
qed

text \<open>
  Claim C7. Let the first file report \<open>forceOutFreq = fof\<close> and \<open>timeStep = ts\<close>. Every
  call of \<^verbatim>\<open>milestoning.make_milestoning_model\<close> made by the analysis has
  \<open>frame_time = ts * fof\<close>; and in a run that ends normally every file reports the
  same metadata and the model builder is called, with this frame time, for each of
  the \<open>num_xi_bins\<close> bins the binner returned.
\<close>

theorem frame_time_passed_to_every_bin:
  assumes first: "parse_ramd_log_file ext f = Inr (trajs, fof, frc, ts)"
  shows "(\<forall>b ms ft n.
            Call_model b ms ft n \<in> set (fst (analyze_log ext (f # fs) num_milestones num_xi_bins verbose))
            \<longrightarrow> ft = ts * of_int fof \<and> n = num_milestones) \<and>
         (snd (analyze_log ext (f # fs) num_milestones num_xi_bins verbose) = Inr () \<longrightarrow>
            (\<forall>g\<in>set fs. \<exists>tr. parse_ramd_log_file ext g = Inr (tr, fof, frc, ts)) \<and>
            (\<exists>r one_dim xi_bins ms.
               xi_binner r num_xi_bins one_dim = Inr xi_bins \<and>
               (\<forall>i<nat num_xi_bins.
                  Call_model (xi_bins ! i) ms (ts * of_int fof) num_milestones
                    \<in> set (fst (analyze_log ext (f # fs) num_milestones num_xi_bins verbose)))))"
proof (intro conjI allI impI)
  fix b ms ft n
  assume "Call_model b ms ft n
            \<in> set (fst (analyze_log ext (f # fs) num_milestones num_xi_bins verbose))"
  then obtain r st where st: "snd (load_logs ext (f # fs)) = Inr st"
    and ev: "Call_model b ms ft n
               \<in> set (fst (analyze_loaded ext num_milestones num_xi_bins verbose r st))"
    using analyze_log_later_events by blast
  from load_logs_metadata[OF first st] have md: "forceOutFreq st = Some fof" "timeStep st = Some ts"
    by simp_all
  from ev have "frame_time_of st = Inr ft" "n = num_milestones"
    using analyze_loaded_events[of ext num_milestones num_xi_bins verbose r st] by auto
  then show "ft = ts * of_int fof" "n = num_milestones"
    using md by (simp_all add: frame_time_of_def)
next
  assume ok: "snd (analyze_log ext (f # fs) num_milestones num_xi_bins verbose) = Inr ()"
  then obtain r st where r: "np_linspace (- 1) 1 (num_xi_bins + 1) = Inr r"
    and st: "snd (load_logs ext (f # fs)) = Inr st"
    and al: "snd (analyze_loaded ext num_milestones num_xi_bins verbose r st) = Inr ()"
    by (auto simp: snd_analyze_log split: sum.splits)
  from load_logs_metadata[OF first st] have md: "forceOutFreq st = Some fof" "timeStep st = Some ts"
    and all: "\<forall>g\<in>set fs. \<exists>tr. parse_ramd_log_file ext g = Inr (tr, fof, frc, ts)"
    by simp_all
  show "\<forall>g\<in>set fs. \<exists>tr. parse_ramd_log_file ext g = Inr (tr, fof, frc, ts)" using all .
  from analyze_loaded_success[OF al] obtain trajs' one_dim ms mn mx s xi_bins ft P calc est where
    b: "xi_binner r num_xi_bins one_dim = Inr xi_bins"
    and ft: "frame_time_of st = Inr ft"
    and bp: "snd (bin_profiles ext verbose xi_bins ms ft num_milestones num_xi_bins) = Inr P"
    and ev: "fst (analyze_loaded ext num_milestones num_xi_bins verbose r st) =
       [Call_condense trajs', Call_grid one_dim num_milestones] @
       fst (bin_profiles ext verbose xi_bins ms ft num_milestones num_xi_bins) @
       [Call_sigma P (forceRAMD st) 0 mn mx s, Call_estimate calc,
        Print (Print_time_estimate est)]"
    by blast
  have fteq: "ft = ts * of_int fof" using ft md by (simp add: frame_time_of_def)
  have tr: "fst (analyze_log ext (f # fs) num_milestones num_xi_bins verbose) =
     (if verbose then [Print (Using_milestones num_milestones), Print (Using_angle_bins num_xi_bins)]
      else []) @ fst (load_logs ext (f # fs)) @
     fst (print_loaded verbose st :: (('a, 'b) event, unit) run) @
     fst (analyze_loaded ext num_milestones num_xi_bins verbose r st)"
    unfolding fst_analyze_log by (simp add: r st)
  have "\<forall>i<nat num_xi_bins.
                  Call_model (xi_bins ! i) ms (ts * of_int fof) num_milestones
                    \<in> set (fst (analyze_log ext (f # fs) num_milestones num_xi_bins verbose))"
  proof (intro allI impI)
    fix i assume "i < nat num_xi_bins"
    from bin_profiles_success[OF bp this]
    show "Call_model (xi_bins ! i) ms (ts * of_int fof) num_milestones
                    \<in> set (fst (analyze_log ext (f # fs) num_milestones num_xi_bins verbose))"
      unfolding tr ev fteq by simp
  qed
  then show "\<exists>r one_dim xi_bins ms.
               xi_binner r num_xi_bins one_dim = Inr xi_bins \<and>
               (\<forall>i<nat num_xi_bins.
                  Call_model (xi_bins ! i) ms (ts * of_int fof) num_milestones
                    \<in> set (fst (analyze_log ext (f # fs) num_milestones num_xi_bins verbose)))"
    using b by blast
qed

theorem frame_time_passed_to_every_bin_witness:
  "parse_ramd_log_file example_externals ''a.log'' = Inr ([1], 50, 14, 2 / 1000) \<and>
   snd (analyze_log example_externals [''a.log'', ''b.log''] 4 2 True) = Inr () \<and>
   (\<exists>b0 b1 ms.
      Call_model b0 ms (1 / 10) 4
        \<in> set (fst (analyze_log example_externals [''a.log'', ''b.log''] 4 2 True)) \<and>
      Call_model b1 ms (1 / 10) 4
        \<in> set (fst (analyze_log example_externals [''a.log'', ''b.log''] 4 2 True)))"
proof -
  have p: "parse_ramd_log_file example_externals ''a.log'' = Inr ([1], 50, 14, 2 / 1000)"
    by (simp add: example_parse_simps)
  have ok: "snd (analyze_log example_externals [''a.log'', ''b.log''] 4 2 True) = Inr ()"
    by (simp add: example_run)
  from frame_time_passed_to_every_bin[OF p, of "[''b.log'']" 4 2 True,
      THEN conjunct2, THEN mp, OF ok, THEN conjunct2]
  obtain xi_bins ms where calls: "\<forall>i<nat 2.
      Call_model (xi_bins ! i) ms (2 / 1000 * of_int 50) 4
        \<in> set (fst (analyze_log example_externals [''a.log'', ''b.log''] 4 2 True))"
    by blast
  have "Call_model (xi_bins ! 0) ms (1 / 10) 4
        \<in> set (fst (analyze_log example_externals [''a.log'', ''b.log''] 4 2 True))"
    using calls[rule_format, of 0] by simp
  moreover have "Call_model (xi_bins ! 1) ms (1 / 10) 4
        \<in> set (fst (analyze_log example_externals [''a.log'', ''b.log''] 4 2 True))"
    using calls[rule_format, of 1] by simp
  ultimately show ?thesis using p ok by blast
qed

text \<open>
  Claim C9. The command line takes one or more files (none is rejected by
  argparse), passes the values of \<^verbatim>\<open>-n\<close> and \<^verbatim>\<open>-a\<close> on, and uses 10 milestones and
  5 bins when they are absent; the signature of \<^verbatim>\<open>analyze_log\<close> has the same defaults.
\<close>

theorem command_line_defaults:
  "(given_ramdLogFiles cl \<noteq> [] \<longrightarrow>
      main ext cl =
        analyze_log ext (given_ramdLogFiles cl)
          (case given_numMilestones cl of None \<Rightarrow> 10 | Some n \<Rightarrow> n)
          (case given_numAngleBins cl of None \<Rightarrow> 5 | Some n \<Rightarrow> n) True) \<and>
   (given_ramdLogFiles cl \<noteq> [] \<and> given_numMilestones cl = None \<and> given_numAngleBins cl = None
      \<longrightarrow> main ext cl = analyze_log ext (given_ramdLogFiles cl) 10 5 True) \<and>
   (given_ramdLogFiles cl = [] \<longrightarrow> main ext cl = ([], Inl SystemExit)) \<and>
   analyze_log_kw ext files None None None = analyze_log ext files 10 5 True"
  by (simp add: main_def parse_args_def analyze_log_kw_def)

theorem command_line_defaults_witness:
  "main example_externals
     \<lparr>given_ramdLogFiles = [''a.log'', ''b.log''], given_numMilestones = None,
      given_numAngleBins = None\<rparr>
   = analyze_log example_externals [''a.log'', ''b.log''] 10 5 True"
  using command_line_defaults[of "\<lparr>given_ramdLogFiles = [''a.log'', ''b.log''],
      given_numMilestones = None, given_numAngleBins = None\<rparr>" example_externals]
  by simp

text \<open>
  Claim C10. \<open>num_xi_bins = 0\<close> is not rejected: line 25 yields the single boundary
  \<open>-1\<close>. When the files are read, condensed and the grid is built without error,
  then with at least one fragment the first fragment (if it has a first frame)
  finds no bin and the run ends with the exception of line 74; with no fragment
  the binner returns normally, and (for a milestone count that numpy accepts) the
  run goes on to call the expansion with an empty array of profiles.
\<close>

theorem zero_bins_not_validated:
  assumes load: "snd (load_logs ext ramd_log_file_list) = Inr st"
    and trajs: "trajectories st = Some trajs"
    and cond: "condense_trajectories ext trajs = Inr one_dim_trajs"
    and grid: "uniform_milestone_locations ext one_dim_trajs num_milestones = Inr (ms, mn, mx, s)"
  shows "np_linspace (- 1) 1 (0 + 1) = Inr [- 1] \<and>
     (\<forall>t rest. one_dim_trajs = t # rest \<and> t \<noteq> [] \<longrightarrow>
        xi_binner [- 1] 0 one_dim_trajs = Inl (Exception_not_placed (snd (hd t))) \<and>
        snd (analyze_log ext ramd_log_file_list num_milestones 0 verbose)
          = Inl (Exception_not_placed (snd (hd t)))) \<and>
     (one_dim_trajs = [] \<longrightarrow>
        xi_binner [- 1] 0 one_dim_trajs = Inr [] \<and>
        (0 \<le> num_milestones \<longrightarrow>
           Call_sigma [] (forceRAMD st) 0 mn mx s
             \<in> set (fst (analyze_log ext ramd_log_file_list num_milestones 0 verbose))))"
proof (intro conjI allI impI)
  show lin: "np_linspace (- 1) 1 (0 + 1) = Inr [- 1]" by (rule linspace_zero)
  have run: "snd (analyze_log ext ramd_log_file_list num_milestones 0 verbose) =
      snd (analyze_loaded ext num_milestones 0 verbose [- 1] st)"
    using lin load by (simp add: snd_analyze_log)
  {
    fix t rest assume a: "one_dim_trajs = t # rest \<and> t \<noteq> []"
    then obtain fr frs where t: "t = fr # frs" by (cases t) auto
    show b: "xi_binner [- 1] 0 one_dim_trajs = Inl (Exception_not_placed (snd (hd t)))"
      using a t by (simp add: xi_binner_def place_trajectory_def py_range_def)
    show "snd (analyze_log ext ramd_log_file_list num_milestones 0 verbose)
          = Inl (Exception_not_placed (snd (hd t)))"
      unfolding run by (simp add: analyze_loaded_def snd_and_then trajs cond grid b)
  }
  {
    assume e: "one_dim_trajs = []"
    show b: "xi_binner [- 1] 0 one_dim_trajs = Inr []"
      using e by (simp add: xi_binner_def py_range_def)
    assume nm: "0 \<le> num_milestones"
    have ft: "\<exists>ft. frame_time_of st = Inr ft \<or> frame_time_of st = Inl TypeError"
      by (auto simp: frame_time_of_def split: option.splits)
    have md: "\<exists>ft. frame_time_of st = Inr ft"
    proof (cases ramd_log_file_list)
      case Nil
      then show ?thesis using load trajs by (auto simp: load_logs_def initial_state_def)
    next
      case (Cons f fs)
      with load obtain s1 where "snd (load_file ext f initial_state) = Inr s1"
        by (auto simp: snd_load_logs_Cons split: sum.splits)
      then obtain tr a b c where "parse_ramd_log_file ext f = Inr (tr, a, b, c)"
        by (auto simp: snd_load_file split: sum.splits prod.splits)
      from load_logs_metadata[OF this load[unfolded Cons]] show ?thesis
        by (simp add: frame_time_of_def)
    qed
    then obtain ft where ft: "frame_time_of st = Inr ft" by blast
    have bp: "bin_profiles ext verbose [] ms ft num_milestones 0 = ([], Inr [])"
      using nm by (simp add: bin_profiles_def np_zeros3_def py_range_def ret_def)
    have "Call_sigma [] (forceRAMD st) 0 mn mx s
            \<in> set (fst (analyze_loaded ext num_milestones 0 verbose [- 1] st))"
      by (simp add: analyze_loaded_def fst_and_then snd_and_then trajs cond grid b ft bp
               split: sum.splits)
    then show "Call_sigma [] (forceRAMD st) 0 mn mx s
             \<in> set (fst (analyze_log ext ramd_log_file_list num_milestones 0 verbose))"
      unfolding fst_analyze_log using lin load by simp
  }
qed

theorem zero_bins_not_validated_witness:
  "snd (load_logs example_externals [''a.log'']) =
     Inr \<lparr>trajectory_list = [1], trajectories = Some [1],
          forceOutFreq = Some 50, forceRAMD = Some 14, timeStep = Some (2 / 1000)\<rparr> \<and>
   condense_trajectories example_externals [1] = Inr [[(1, 0)]] \<and>
   uniform_milestone_locations example_externals [[(1, 0)]] 4 = Inr ([], 0, 0, 0) \<and>
   snd (analyze_log example_externals [''a.log''] 4 0 True) = Inl (Exception_not_placed 0)"
proof -
  let ?st = "\<lparr>trajectory_list = [1::nat], trajectories = Some [1],
          forceOutFreq = Some 50, forceRAMD = Some 14, timeStep = Some (2 / 1000)\<rparr>"
  have t: "trajectories ?st = Some [1]" by simp
  have c: "condense_trajectories example_externals [1] = Inr [[(1, 0)]]"
    by (simp add: example_externals_def)
  have g: "uniform_milestone_locations example_externals [[(1, 0)]] 4 = Inr ([], 0, 0, 0)"
    by (simp add: example_externals_def)
  have "snd (analyze_log example_externals [''a.log''] 4 0 True)
          = Inl (Exception_not_placed (snd (hd [(1::real, 0::real)])))"
    using zero_bins_not_validated[OF example_load_a t c g, of True,
        THEN conjunct2, THEN conjunct1, rule_format, of "[(1, 0)]" "[]"]
    by simp
  then show ?thesis using example_load_a c g by simp
qed

end
